theory Spec2Isabelle
  imports Complex_Main "HOL-Library.Sublist" "HOL-Library.AList"
begin

section \<open>Events and configuration (generate_access_logs.py)\<close>

text \<open>
  An event is a JSON object read with \<^verbatim>\<open>e.get(key)\<close>: every field may be absent, which
  is \<open>None\<close> here. A Python float is modelled as the real number it denotes; timestamps
  are seconds on the real line and the difference of two timestamps is what
  \<^verbatim>\<open>total_seconds()\<close> returns. The mean of the gaps, the one float computation whose
  rounding decides a tier, is not computed in the reals: it is a parameter of the
  model, see \<open>attack_speed_score\<close>. The reason strings that the
  scorer collects are display text built with float formatting; no score, component,
  statistic or decision depends on them and they are left out of the records.
\<close>

record event =
  e_ip :: "string option"
  e_user :: "string option"
  e_status :: "string option"
  e_ua :: "string option"
  e_country :: "string option"
  e_date :: "string option"
  e_time :: "string option"

record score_components =
  failed_attempts :: real
  attack_speed :: real
  tool_detection :: real
  geographic_risk :: real
  user_spread :: real
  persistence :: real

definition SCORING_WEIGHTS :: score_components where
  "SCORING_WEIGHTS = \<lparr>failed_attempts = 25, attack_speed = 20, tool_detection = 15,
     geographic_risk = 10, user_spread = 15, persistence = 15\<rparr>"

definition BRUTE_FORCE_FAIL_THRESHOLD :: nat where
  "BRUTE_FORCE_FAIL_THRESHOLD = 5"

definition USER_SPREAD_THRESHOLD :: nat where
  "USER_SPREAD_THRESHOLD = 4"

definition PERSISTENCE_MINUTES :: real where
  "PERSISTENCE_MINUTES = 15"

definition HIGH_VALUE_TARGETS :: "string list" where
  "HIGH_VALUE_TARGETS =
     [''admin'', ''root'', ''security'', ''finance'', ''backup'', ''superuser'', ''dbadmin'']"

definition SUSPICIOUS_USER_AGENTS :: "string list" where
  "SUSPICIOUS_USER_AGENTS =
     [''hydra'', ''sqlmap'', ''masscan'', ''nikto'', ''nmap'',
      ''burp'', ''metasploit'', ''python-requests'', ''curl'', ''wget'']"

definition HIGH_RISK_COUNTRIES :: "string list" where
  "HIGH_RISK_COUNTRIES = [''RU'', ''CN'', ''KP'', ''BR'']"

definition MEDIUM_RISK_COUNTRIES :: "string list" where
  "MEDIUM_RISK_COUNTRIES = [''US'', ''MO'']"

definition LOCAL_IPS :: "string list" where
  "LOCAL_IPS = [''192.168.1.10'', ''192.168.1.15'', ''192.168.1.50'', ''10.0.0.7'']"

text \<open>Python truthiness of \<^verbatim>\<open>e.get(key)\<close>: an absent key and the empty string are false.\<close>

definition truthy :: "string option \<Rightarrow> bool" where
  "truthy v = (case v of None \<Rightarrow> False | Some s \<Rightarrow> s \<noteq> [])"

text \<open>\<^verbatim>\<open>e.get(key, "")\<close>.\<close>

definition get_or_empty :: "string option \<Rightarrow> string" where
  "get_or_empty v = (case v of None \<Rightarrow> [] | Some s \<Rightarrow> s)"

text \<open>
  \<^verbatim>\<open>round(x, 2)\<close>: to the nearest multiple of 0.01, a tie going to the even neighbour.
\<close>

definition py_round2 :: "real \<Rightarrow> real" where
  "py_round2 x =
     (let y = x * 100; f = \<lfloor>y\<rfloor>; d = y - of_int f
      in of_int (if d < 1 / 2 then f else if 1 / 2 < d then f + 1
                 else if even f then f else f + 1) / 100)"

text \<open>
  \<^verbatim>\<open>parse_datetime\<close>. The library's \<^verbatim>\<open>strptime\<close> is a parameter: it takes the string and
  the format and returns the timestamp, or \<open>None\<close> where the library raises. The two
  formats are tried in order; when both fail the function returns the current time
  \<^verbatim>\<open>dt.now()\<close>, the parameter \<open>now\<close>. It never raises.
\<close>

definition parse_datetime ::
  "(string \<Rightarrow> string \<Rightarrow> real option) \<Rightarrow> real \<Rightarrow> string \<Rightarrow> string \<Rightarrow> real" where
  "parse_datetime strptime now date_str time_str =
     (let s = date_str @ '' '' @ time_str
      in case strptime s ''%Y-%m-%d %H:%M:%S.%f'' of
           Some t \<Rightarrow> t
         | None \<Rightarrow> (case strptime s ''%Y-%m-%d %H:%M:%S'' of
                      Some t \<Rightarrow> t
                    | None \<Rightarrow> now))"

section \<open>Severity\<close>

definition get_severity_level :: "real \<Rightarrow> string" where
  "get_severity_level score =
     (if score \<ge> 86 then ''CRITICAL''
      else if score \<ge> 61 then ''HIGH''
      else if score \<ge> 31 then ''MEDIUM''
      else ''LOW'')"

text \<open>The copy of the classifier in dashboard.py.\<close>

definition get_severity_level_dashboard :: "real \<Rightarrow> string" where
  "get_severity_level_dashboard score =
     (if score \<ge> 86 then ''CRITICAL''
      else if score \<ge> 61 then ''HIGH''
      else if score \<ge> 31 then ''MEDIUM''
      else ''LOW'')"

section \<open>Aggregation and scoring of one IP\<close>

text \<open>
  The four sets of the statistics are Python sets turned into lists. They are lists
  without repetition here, in insertion order; the scorer uses only their length and
  their members.
\<close>

record aggregated_stats =
  st_total_attempts :: nat
  st_failed_attempts :: nat
  st_success_attempts :: nat
  st_unique_users :: "string list"
  st_countries :: "string list"
  st_user_agents :: "string list"
  st_targeted_hvt :: "string list"
  st_first_seen :: "real option"
  st_last_seen :: "real option"

definition set_add :: "'a \<Rightarrow> 'a list \<Rightarrow> 'a list" where
  "set_add x xs = (if x \<in> set xs then xs else xs @ [x])"

text \<open>The body of the loop over the recent events, up to the timestamp.\<close>

definition stats_step :: "event \<Rightarrow> aggregated_stats \<Rightarrow> aggregated_stats" where
  "stats_step e st =
     (let st1 = (if e_status e = Some ''FAIL''
                 then st\<lparr>st_failed_attempts := st_failed_attempts st + 1\<rparr>
                 else if e_status e = Some ''SUCCESS''
                 then st\<lparr>st_success_attempts := st_success_attempts st + 1\<rparr>
                 else st);
          st2 = (if truthy (e_user e)
                 then (let user = get_or_empty (e_user e);
                           s = st1\<lparr>st_unique_users := set_add user (st_unique_users st1)\<rparr>
                       in if user \<in> set HIGH_VALUE_TARGETS
                          then s\<lparr>st_targeted_hvt := set_add user (st_targeted_hvt s)\<rparr>
                          else s)
                 else st1);
          st3 = (if truthy (e_country e)
                 then st2\<lparr>st_countries := set_add (get_or_empty (e_country e)) (st_countries st2)\<rparr>
                 else st2)
      in if truthy (e_ua e)
         then st3\<lparr>st_user_agents := set_add (get_or_empty (e_ua e)) (st_user_agents st3)\<rparr>
         else st3)"

text \<open>
  The loop. Each event appends one timestamp: \<^verbatim>\<open>parse_datetime\<close> never raises, so the
  \<^verbatim>\<open>except: continue\<close> around the call is never taken. \<open>now i\<close> is the clock as read
  while the \<open>i\<close>-th recent event is processed.
\<close>

fun stats_loop ::
  "(string \<Rightarrow> string \<Rightarrow> real option) \<Rightarrow> (nat \<Rightarrow> real) \<Rightarrow> nat \<Rightarrow> event list \<Rightarrow>
   aggregated_stats \<times> real list \<Rightarrow> aggregated_stats \<times> real list" where
  "stats_loop strptime now i [] acc = acc"
| "stats_loop strptime now i (e # es) (st, tms) =
     stats_loop strptime now (Suc i) es
       (stats_step e st,
        tms @ [parse_datetime strptime (now i) (get_or_empty (e_date e)) (get_or_empty (e_time e))])"

definition failed_attempts_score :: "nat \<Rightarrow> real" where
  "failed_attempts_score num_fails =
     (let fail_thresh = BRUTE_FORCE_FAIL_THRESHOLD
      in if num_fails \<ge> fail_thresh
         then (let over = num_fails - (fail_thresh - 1);
                   max_weight = failed_attempts SCORING_WEIGHTS
               in min max_weight (py_round2 (max_weight * (1 - exp (- real over / 3)))))
         else 0)"

text \<open>\<^verbatim>\<open>[(tms[i]-tms[i-1]).total_seconds() for i in range(1, len(tms))]\<close>\<close>

fun gaps_of :: "real list \<Rightarrow> real list" where
  "gaps_of (a # b # ts) = (b - a) # gaps_of (b # ts)"
| "gaps_of ts = []"

text \<open>\<^verbatim>\<open>xs[a:b]\<close> for indices that are not negative.\<close>

definition py_slice :: "nat \<Rightarrow> nat \<Rightarrow> 'a list \<Rightarrow> 'a list" where
  "py_slice a b xs = drop a (take b xs)"

definition trimmed_diffs :: "real list \<Rightarrow> real list" where
  "trimmed_diffs tms =
     (let diffs_sorted = sort (gaps_of tms);
          cut = max 1 (length diffs_sorted div 10)
      in if length diffs_sorted > 2 * cut
         then py_slice cut (length diffs_sorted - cut) diffs_sorted
         else diffs_sorted)"

text \<open>
  The thresholds of the tiers are float literals. \<^verbatim>\<open>0.25\<close> and \<^verbatim>\<open>1.5\<close> are doubles; \<^verbatim>\<open>0.6\<close>
  is not, and the literal denotes the double nearest to it.
\<close>

definition double_0_6 :: real where
  "double_0_6 = 5404319552844595 / 9007199254740992"

definition speed_tier :: "real \<Rightarrow> real" where
  "speed_tier avg =
     (let w = attack_speed SCORING_WEIGHTS
      in if avg < 0.25 then w
         else if avg < double_0_6 then py_round2 (w * 0.8)
         else if avg < 1.5 then py_round2 (w * 0.5)
         else 0)"

text \<open>
  \<^verbatim>\<open>avg = sum(trimmed)/len(trimmed)\<close> is computed in floating point: each gap is rounded to
  a double by \<^verbatim>\<open>total_seconds()\<close>, the sum is rounded as the interpreter's \<^verbatim>\<open>sum\<close> rounds it,
  and so is the quotient. \<open>fmean\<close> is that computation, a parameter as the library
  functions are: \<open>fmean gaps\<close> is the double that the machine returns for the gaps given
  here exactly.
\<close>

definition attack_speed_score :: "(real list \<Rightarrow> real) \<Rightarrow> real list \<Rightarrow> real" where
  "attack_speed_score fmean tms =
     (if length tms \<ge> 3
      then (let trimmed = trimmed_diffs tms
            in if trimmed \<noteq> []
               then speed_tier (fmean trimmed)
               else 0)
      else 0)"

text \<open>
  \<^verbatim>\<open>ua.lower()\<close> on ASCII letters; user agents are taken to be ASCII text.
\<close>

definition lower_char :: "char \<Rightarrow> char" where
  "lower_char c =
     (case map_of (zip ''ABCDEFGHIJKLMNOPQRSTUVWXYZ'' ''abcdefghijklmnopqrstuvwxyz'') c of
        Some l \<Rightarrow> l
      | None \<Rightarrow> c)"

definition lower :: "string \<Rightarrow> string" where
  "lower s = map lower_char s"

definition is_suspicious :: "string \<Rightarrow> bool" where
  "is_suspicious ua = list_ex (\<lambda>bot. sublist bot (lower ua)) SUSPICIOUS_USER_AGENTS"

fun tool_detection_score :: "string list \<Rightarrow> real" where
  "tool_detection_score [] = 0"
| "tool_detection_score (ua # uas) =
     (if is_suspicious ua then tool_detection SCORING_WEIGHTS else tool_detection_score uas)"

fun geo_loop :: "string list \<Rightarrow> real \<Rightarrow> real" where
  "geo_loop [] geo_score = geo_score"
| "geo_loop (c # cs) geo_score =
     (if c \<in> set HIGH_RISK_COUNTRIES then max geo_score (geographic_risk SCORING_WEIGHTS)
      else if c \<in> set MEDIUM_RISK_COUNTRIES
      then geo_loop cs (max geo_score (real_of_int (\<lfloor>geographic_risk SCORING_WEIGHTS\<rfloor> div 2)))
      else geo_loop cs geo_score)"

definition user_spread_score :: "nat \<Rightarrow> real" where
  "user_spread_score num_users =
     (if num_users \<ge> 15 then user_spread SCORING_WEIGHTS
      else if num_users \<ge> 8 then py_round2 (user_spread SCORING_WEIGHTS * 0.8)
      else if num_users \<ge> USER_SPREAD_THRESHOLD then py_round2 (user_spread SCORING_WEIGHTS * 0.5)
      else 0)"

definition persistence_score :: "real list \<Rightarrow> real" where
  "persistence_score tms =
     (if length tms \<ge> 2
      then (let span_minutes = (last tms - hd tms) / 60;
                pers_weight = persistence SCORING_WEIGHTS
            in if span_minutes \<ge> PERSISTENCE_MINUTES then pers_weight
               else if span_minutes \<ge> PERSISTENCE_MINUTES / 2 then py_round2 (pers_weight * 0.6)
               else 0)
      else 0)"

definition components_sum :: "score_components \<Rightarrow> real" where
  "components_sum c = failed_attempts c + attack_speed c + tool_detection c +
     geographic_risk c + user_spread c + persistence c"

definition zero_components :: score_components where
  "zero_components = \<lparr>failed_attempts = 0, attack_speed = 0, tool_detection = 0,
     geographic_risk = 0, user_spread = 0, persistence = 0\<rparr>"

text \<open>\<^verbatim>\<open>xs[-n:]\<close>: the last \<open>n\<close> elements, all of them when there are fewer.\<close>

definition last_n :: "nat \<Rightarrow> 'a list \<Rightarrow> 'a list" where
  "last_n n xs = drop (length xs - n) xs"

definition recent_events :: "event list \<Rightarrow> string \<Rightarrow> event list" where
  "recent_events events ip = last_n 200 (filter (\<lambda>e. e_ip e = Some ip) events)"

definition initial_stats :: "nat \<Rightarrow> aggregated_stats" where
  "initial_stats n = \<lparr>st_total_attempts = n, st_failed_attempts = 0, st_success_attempts = 0,
     st_unique_users = [], st_countries = [], st_user_agents = [], st_targeted_hvt = [],
     st_first_seen = None, st_last_seen = None\<rparr>"

text \<open>The sorted timestamps of the recent events of the IP.\<close>

definition ip_times ::
  "(string \<Rightarrow> string \<Rightarrow> real option) \<Rightarrow> (nat \<Rightarrow> real) \<Rightarrow> event list \<Rightarrow> string \<Rightarrow> real list" where
  "ip_times strptime now events ip =
     (let recent = recent_events events ip
      in sort (snd (stats_loop strptime now 0 recent (initial_stats (length recent), []))))"

text \<open>
  \<^verbatim>\<open>calculate_threat_score_ip\<close> returns the score, the components and the statistics;
  the statistics are the empty dict, \<open>None\<close> here, when the IP has no event.
\<close>

definition calculate_threat_score_ip ::
  "(real list \<Rightarrow> real) \<Rightarrow> (string \<Rightarrow> string \<Rightarrow> real option) \<Rightarrow> (nat \<Rightarrow> real) \<Rightarrow> event list \<Rightarrow> string \<Rightarrow>
   real \<times> score_components \<times> aggregated_stats option" where
  "calculate_threat_score_ip fmean strptime now events ip =
     (let ip_events = filter (\<lambda>e. e_ip e = Some ip) events
      in if ip_events = [] then (0, zero_components, None)
         else
           (let recent = last_n 200 ip_events;
                (st0, tms0) = stats_loop strptime now 0 recent (initial_stats (length recent), []);
                tms = sort tms0;
                aggregated_stats =
                  (if tms \<noteq> []
                   then st0\<lparr>st_first_seen := Some (hd tms), st_last_seen := Some (last tms)\<rparr>
                   else st0);
                c1 = zero_components\<lparr>failed_attempts :=
                       failed_attempts_score (st_failed_attempts aggregated_stats)\<rparr>;
                c2 = c1\<lparr>attack_speed := attack_speed_score fmean tms\<rparr>;
                c3 = c2\<lparr>tool_detection := tool_detection_score (st_user_agents aggregated_stats)\<rparr>;
                c4 = c3\<lparr>geographic_risk := geo_loop (st_countries aggregated_stats) 0\<rparr>;
                c5 = c4\<lparr>user_spread := user_spread_score (length (st_unique_users aggregated_stats))\<rparr>;
                c6 = c5\<lparr>persistence := persistence_score tms\<rparr>;
                score_components =
                  (if st_targeted_hvt aggregated_stats \<noteq> []
                   then c6\<lparr>user_spread := min 100 (user_spread c6 + 5)\<rparr>
                   else c6);
                score = py_round2 (components_sum score_components)
            in (min score 100, score_components, Some aggregated_stats)))"

section \<open>Persisted collections and sanctions\<close>

text \<open>
  The JSON files are held as the collections they decode to: the alerts as a list, the
  scores and the sanctions as dicts, which are association lists in insertion order
  with \<open>AList.update\<close> as assignment to a key. A missing, unreadable or ill-shaped file
  loads as the empty collection. \<open>saved\<close> is the log of the files that \<^verbatim>\<open>save_json\<close> was
  called on, oldest first. The description text of a sanction is display text and is
  left out, as the reasons are.
\<close>

record threat_score =
  ts_entity_type :: string
  ts_entity_value :: string
  ts_score :: "real option"
  ts_severity :: string
  ts_components :: score_components
  ts_stats :: "aggregated_stats option"

record sanction =
  s_entity_type :: string
  s_entity_value :: string
  s_score :: real
  s_severity :: "string option"
  s_action :: string
  s_blocked :: bool
  s_active :: bool
  s_created_at :: string
  s_expires_at :: "string option"
  s_components :: score_components
  s_rate_limit :: "string option"
  s_requires_manual_review :: "bool option"

record alert =
  a_type :: "string option"
  a_ip :: "string option"
  a_score :: real
  a_severity :: string
  a_total_attempts :: nat
  a_failed_attempts :: nat
  a_unique_users :: nat
  a_countries :: "string list"
  a_date :: string
  a_time :: string

record store =
  alerts_file :: "alert list"
  scores_file :: "(string \<times> threat_score) list"
  sanctions_file :: "(string \<times> sanction) list"
  saved :: "string list"

definition ALERT_FILE :: string where
  "ALERT_FILE = ''alerts.json''"

definition SCORES_FILE :: string where
  "SCORES_FILE = ''threat_scores.json''"

definition SANCTIONS_FILE :: string where
  "SANCTIONS_FILE = ''sanctions.json''"

record sanction_config =
  action :: string
  duration_minutes :: "nat option"
  block :: bool
  rate_limit :: "string option"
  requires_manual_review :: "bool option"

definition SANCTIONS :: "(string \<times> sanction_config) list" where
  "SANCTIONS =
     [(''MEDIUM'', \<lparr>action = ''RATE_LIMIT'', duration_minutes = Some 60, block = False,
         rate_limit = Some ''1/5s'', requires_manual_review = None\<rparr>),
      (''HIGH'', \<lparr>action = ''TEMPORARY_BLOCK'', duration_minutes = Some 180, block = True,
         rate_limit = None, requires_manual_review = None\<rparr>),
      (''CRITICAL'', \<lparr>action = ''PERMANENT_BLOCK'', duration_minutes = None, block = True,
         rate_limit = None, requires_manual_review = Some True\<rparr>)]"

text \<open>
  \<^verbatim>\<open>apply_sanction\<close>. \<open>now\<close> is the clock reading of the call, in seconds;
  \<open>isoformat\<close> is the library's rendering of a timestamp.
\<close>

definition apply_sanction ::
  "(real \<Rightarrow> string) \<Rightarrow> real \<Rightarrow> string \<Rightarrow> string \<Rightarrow> real \<Rightarrow> string \<Rightarrow> score_components \<Rightarrow>
   store \<Rightarrow> store" where
  "apply_sanction isoformat now entity_type val score severity components st =
     (case map_of SANCTIONS severity of
        None \<Rightarrow> st
      | Some sanction_config \<Rightarrow>
          (let sanctions = sanctions_file st;
               key = entity_type @ '':'' @ val;
               expires_at =
                 (case duration_minutes sanction_config of
                    None \<Rightarrow> None
                  | Some d \<Rightarrow> if d \<noteq> 0 then Some (isoformat (now + 60 * real d)) else None);
               sanction = \<lparr>s_entity_type = entity_type, s_entity_value = val, s_score = score,
                 s_severity = Some severity, s_action = action sanction_config,
                 s_blocked = block sanction_config, s_active = True,
                 s_created_at = isoformat now, s_expires_at = expires_at,
                 s_components = components, s_rate_limit = rate_limit sanction_config,
                 s_requires_manual_review =
                   (if requires_manual_review sanction_config = Some True then Some True else None)\<rparr>
           in st\<lparr>sanctions_file := AList.update key sanction sanctions,
                 saved := saved st @ [SANCTIONS_FILE]\<rparr>))"

section \<open>The detection cycle\<close>

datatype py_error = KeyError

text \<open>
  \<^verbatim>\<open>ip_groups[ip].append(e)\<close> on a \<^verbatim>\<open>defaultdict(list)\<close>, for the events whose IP is
  present, not empty and not local.
\<close>

fun group_by_ip :: "event list \<Rightarrow> (string \<times> event list) list \<Rightarrow> (string \<times> event list) list" where
  "group_by_ip [] ip_groups = ip_groups"
| "group_by_ip (e # es) ip_groups =
     group_by_ip es
       (if truthy (e_ip e) \<and> get_or_empty (e_ip e) \<notin> set LOCAL_IPS
        then (let ip = get_or_empty (e_ip e)
              in AList.update ip
                   ((case map_of ip_groups ip of None \<Rightarrow> [] | Some g \<Rightarrow> g) @ [e]) ip_groups)
        else ip_groups)"

text \<open>
  The loop over the groups. The state is the alerts and the scores in memory, the set
  of alerted IPs and the files. \<open>now_ev ip i\<close> is the clock while the \<open>i\<close>-th recent
  event of \<open>ip\<close> is parsed, \<open>now_s ip\<close> the clock when the sanction of \<open>ip\<close> is applied.
  The scorer is called on the whole list \<open>events\<close>, as in the source.
\<close>

fun detect_loop ::
  "(real list \<Rightarrow> real) \<Rightarrow> (string \<Rightarrow> string \<Rightarrow> real option) \<Rightarrow> (real \<Rightarrow> string) \<Rightarrow> (string \<Rightarrow> nat \<Rightarrow> real) \<Rightarrow>
   (string \<Rightarrow> real) \<Rightarrow> event list \<Rightarrow> (string \<times> event list) list \<Rightarrow>
   alert list \<times> (string \<times> threat_score) list \<times> string option set \<times> store \<Rightarrow>
   py_error + alert list \<times> (string \<times> threat_score) list \<times> string option set \<times> store" where
  "detect_loop fmean strptime isoformat now_ev now_s events [] acc = Inr acc"
| "detect_loop fmean strptime isoformat now_ev now_s events ((ip, ip_events) # rest)
     (alerts, scores, alerted_ips, st) =
     (if length ip_events < 3
      then detect_loop fmean strptime isoformat now_ev now_s events rest (alerts, scores, alerted_ips, st)
      else
        (let (score, components, stats) = calculate_threat_score_ip fmean strptime (now_ev ip) events ip;
             severity = get_severity_level score
         in if score \<ge> 31
            then
              (let scores' = AList.update (''IP:'' @ ip)
                     \<lparr>ts_entity_type = ''IP'', ts_entity_value = ip, ts_score = Some score,
                       ts_severity = severity, ts_components = components, ts_stats = stats\<rparr> scores;
                   st' = apply_sanction isoformat (now_s ip) ''IP'' ip score severity components st
               in if Some ip \<notin> alerted_ips
                  then
                    (case stats of
                       None \<Rightarrow> Inl KeyError
                     | Some stats' \<Rightarrow>
                         (let sample = last ip_events;
                              new_alert = \<lparr>a_type = Some ''Threat Detection'', a_ip = Some ip,
                                a_score = score, a_severity = severity,
                                a_total_attempts = st_total_attempts stats',
                                a_failed_attempts = st_failed_attempts stats',
                                a_unique_users = length (st_unique_users stats'),
                                a_countries = st_countries stats',
                                a_date = get_or_empty (e_date sample),
                                a_time = get_or_empty (e_time sample)\<rparr>
                          in detect_loop fmean strptime isoformat now_ev now_s events rest
                               (alerts @ [new_alert], scores', insert (Some ip) alerted_ips, st')))
                  else detect_loop fmean strptime isoformat now_ev now_s events rest
                         (alerts, scores', alerted_ips, st'))
            else detect_loop fmean strptime isoformat now_ev now_s events rest
                   (alerts, scores, alerted_ips, st)))"

definition alerted_ips_of :: "alert list \<Rightarrow> string option set" where
  "alerted_ips_of alerts = set (map a_ip (filter (\<lambda>a. a_type a = Some ''Threat Detection'') alerts))"

definition detect_threats_by_ip ::
  "(real list \<Rightarrow> real) \<Rightarrow> (string \<Rightarrow> string \<Rightarrow> real option) \<Rightarrow> (real \<Rightarrow> string) \<Rightarrow> (string \<Rightarrow> nat \<Rightarrow> real) \<Rightarrow>
   (string \<Rightarrow> real) \<Rightarrow> event list \<Rightarrow> store \<Rightarrow> py_error + store" where
  "detect_threats_by_ip fmean strptime isoformat now_ev now_s events st =
     (let alerts = alerts_file st;
          scores = scores_file st;
          latest = last_n 1000 events;
          ip_groups = group_by_ip latest [];
          alerted_ips = alerted_ips_of alerts
      in case detect_loop fmean strptime isoformat now_ev now_s events ip_groups
                (alerts, scores, alerted_ips, st) of
           Inl err \<Rightarrow> Inl err
         | Inr (alerts', scores', alerted', st') \<Rightarrow>
             Inr (st'\<lparr>alerts_file := alerts', scores_file := scores',
                      saved := saved st' @ [ALERT_FILE, SCORES_FILE]\<rparr>))"

section \<open>The dashboard: reconciliation and manual lift (dashboard.py)\<close>

text \<open>
  \<^verbatim>\<open>datetime.fromisoformat\<close> is a parameter: \<open>None\<close> where it raises, otherwise a naive
  timestamp or one that carries a UTC offset. Comparing \<^verbatim>\<open>datetime.now()\<close>, which is
  naive, with an offset-aware timestamp raises \<^verbatim>\<open>TypeError\<close>; the bare \<^verbatim>\<open>except\<close> of
  the expiry check swallows it as it swallows the parse failure.
\<close>

datatype py_datetime = Naive real | Aware real

definition expiry_passed :: "(string \<Rightarrow> py_datetime option) \<Rightarrow> real \<Rightarrow> sanction \<Rightarrow> bool" where
  "expiry_passed fromisoformat now sanction =
     (if truthy (s_expires_at sanction)
      then (case fromisoformat (get_or_empty (s_expires_at sanction)) of
              None \<Rightarrow> False
            | Some (Aware t) \<Rightarrow> False
            | Some (Naive expires) \<Rightarrow> now > expires)
      else False)"

text \<open>\<^verbatim>\<open>scores[entity].get("score", 0)\<close>\<close>

definition score_or_zero :: "threat_score \<Rightarrow> real" where
  "score_or_zero ts = (case ts_score ts of None \<Rightarrow> 0 | Some x \<Rightarrow> x)"

fun get_sanctions_loop ::
  "(string \<Rightarrow> py_datetime option) \<Rightarrow> (string \<Rightarrow> real) \<Rightarrow> (string \<times> threat_score) list \<Rightarrow>
   (string \<times> sanction) list \<Rightarrow> (string \<times> sanction) list \<times> bool \<Rightarrow>
   (string \<times> sanction) list \<times> bool" where
  "get_sanctions_loop fromisoformat now scores [] acc = acc"
| "get_sanctions_loop fromisoformat now scores ((entity, sanction) # rest) (cleaned, changed) =
     (case map_of scores entity of
        None \<Rightarrow> get_sanctions_loop fromisoformat now scores rest (cleaned, True)
      | Some ts \<Rightarrow>
          (let score = score_or_zero ts
           in if score < 31
              then get_sanctions_loop fromisoformat now scores rest (cleaned, True)
              else
                (let correct_severity = get_severity_level_dashboard score;
                     stale = (s_severity sanction \<noteq> Some correct_severity);
                     sanction' = (if stale then sanction\<lparr>s_severity := Some correct_severity\<rparr>
                                  else sanction);
                     changed' = (if stale then True else changed)
                 in if expiry_passed fromisoformat (now entity) sanction'
                    then get_sanctions_loop fromisoformat now scores rest (cleaned, True)
                    else get_sanctions_loop fromisoformat now scores rest
                           (AList.update entity sanction' cleaned, changed'))))"

text \<open>
  \<^verbatim>\<open>get_sanctions\<close> returns the reconciled sanctions and the files. The clock is read
  once per sanction with an expiry: \<open>now entity\<close> is the reading for the sanction of
  \<open>entity\<close>.
\<close>

definition get_sanctions ::
  "(string \<Rightarrow> py_datetime option) \<Rightarrow> (string \<Rightarrow> real) \<Rightarrow> store \<Rightarrow> (string \<times> sanction) list \<times> store" where
  "get_sanctions fromisoformat now st =
     (let sanctions = sanctions_file st;
          scores = scores_file st;
          (cleaned, changed) = get_sanctions_loop fromisoformat now scores sanctions ([], False)
      in (cleaned,
          if changed then st\<lparr>sanctions_file := cleaned, saved := saved st @ [SANCTIONS_FILE]\<rparr>
          else st))"

record response =
  r_status :: nat
  r_success :: bool
  r_text :: string

text \<open>
  \<^verbatim>\<open>remove_sanction\<close>, on the fields \<^verbatim>\<open>type\<close> and \<^verbatim>\<open>value\<close> of the request body. The
  message text is written without its accent.
\<close>

definition remove_sanction :: "string option \<Rightarrow> string option \<Rightarrow> store \<Rightarrow> response \<times> store" where
  "remove_sanction s_type val st =
     (if \<not> truthy s_type \<or> \<not> truthy val
      then (\<lparr>r_status = 400, r_success = False, r_text = ''Missing parameters''\<rparr>, st)
      else
        (let sanctions = sanctions_file st;
             key = get_or_empty s_type @ '':'' @ get_or_empty val
         in case map_of sanctions key of
              None \<Rightarrow> (\<lparr>r_status = 404, r_success = False, r_text = ''Sanction not found''\<rparr>, st)
            | Some sanction \<Rightarrow>
                (\<lparr>r_status = 200, r_success = True,
                  r_text = ''Sanction levee pour '' @ get_or_empty s_type @ '': '' @ get_or_empty val\<rparr>,
                 st\<lparr>sanctions_file := AList.update key (sanction\<lparr>s_active := False\<rparr>) sanctions,
                    saved := saved st @ [SANCTIONS_FILE]\<rparr>)))"

section \<open>Reconciliation in the words of its description\<close>

text \<open>
  A sanction is kept when its entity has a score, the score is at least 31 and the
  expiry check does not find it expired.
\<close>

definition sanction_kept ::
  "(string \<Rightarrow> py_datetime option) \<Rightarrow> (string \<Rightarrow> real) \<Rightarrow> (string \<times> threat_score) list \<Rightarrow>
   string \<times> sanction \<Rightarrow> bool" where
  "sanction_kept fromisoformat now scores p =
     (case map_of scores (fst p) of
        None \<Rightarrow> False
      | Some ts \<Rightarrow> score_or_zero ts \<ge> 31 \<and> \<not> expiry_passed fromisoformat (now (fst p)) (snd p))"

definition severity_stale :: "(string \<times> threat_score) list \<Rightarrow> string \<times> sanction \<Rightarrow> bool" where
  "severity_stale scores p =
     (case map_of scores (fst p) of
        None \<Rightarrow> False
      | Some ts \<Rightarrow> s_severity (snd p) \<noteq> Some (get_severity_level_dashboard (score_or_zero ts)))"

definition with_current_severity ::
  "(string \<times> threat_score) list \<Rightarrow> string \<times> sanction \<Rightarrow> string \<times> sanction" where
  "with_current_severity scores p =
     (fst p, (snd p)\<lparr>s_severity :=
        (case map_of scores (fst p) of
           None \<Rightarrow> s_severity (snd p)
         | Some ts \<Rightarrow> Some (get_severity_level_dashboard (score_or_zero ts)))\<rparr>)"

text \<open>
  The expiry of a sanction lies in the past: it is present, it is a timestamp, and the
  instant it denotes is before the clock. An offset-aware timestamp carries its instant
  on the scale of the clock.
\<close>

definition expiry_in_past :: "(string \<Rightarrow> py_datetime option) \<Rightarrow> real \<Rightarrow> sanction \<Rightarrow> bool" where
  "expiry_in_past fromisoformat now sanction =
     (truthy (s_expires_at sanction) \<and>
      (case fromisoformat (get_or_empty (s_expires_at sanction)) of
         None \<Rightarrow> False
       | Some (Naive t) \<Rightarrow> t < now
       | Some (Aware t) \<Rightarrow> t < now))"

text \<open>Sample data: one sanction for 1.2.3.4, score 50, and the library on its expiry strings.\<close>

definition sample_components :: score_components where
  "sample_components = \<lparr>failed_attempts = 25, attack_speed = 10, tool_detection = 15,
     geographic_risk = 0, user_spread = 0, persistence = 0\<rparr>"

definition sample_score :: threat_score where
  "sample_score = \<lparr>ts_entity_type = ''IP'', ts_entity_value = ''1.2.3.4'', ts_score = Some 50,
     ts_severity = ''MEDIUM'', ts_components = sample_components, ts_stats = None\<rparr>"

definition sample_sanction :: "string option \<Rightarrow> sanction" where
  "sample_sanction expires = \<lparr>s_entity_type = ''IP'', s_entity_value = ''1.2.3.4'', s_score = 50,
     s_severity = Some ''MEDIUM'', s_action = ''RATE_LIMIT'', s_blocked = False, s_active = True,
     s_created_at = ''2024-01-01T10:00:00'', s_expires_at = expires,
     s_components = sample_components, s_rate_limit = Some ''1/5s'',
     s_requires_manual_review = None\<rparr>"

definition sample_store :: "string option \<Rightarrow> store" where
  "sample_store expires = \<lparr>alerts_file = [], scores_file = [(''IP:1.2.3.4'', sample_score)],
     sanctions_file = [(''IP:1.2.3.4'', sample_sanction expires)], saved = []\<rparr>"

text \<open>
  The library on three expiry strings: a naive timestamp at second 100, the instant 0
  written with a UTC offset, and text that is no timestamp.
\<close>

definition sample_fromisoformat :: "string \<Rightarrow> py_datetime option" where
  "sample_fromisoformat x =
     (if x = ''1970-01-01T00:01:40'' then Some (Naive 100)
      else if x = ''1970-01-01T00:00:00+00:00'' then Some (Aware 0)
      else None)"

definition sample_clock :: "string \<Rightarrow> real" where
  "sample_clock entity = 1000"

section \<open>The scorer in parts\<close>

text \<open>The timestamps that the loop appends, in the order of the events.\<close>

fun event_times ::
  "(string \<Rightarrow> string \<Rightarrow> real option) \<Rightarrow> (nat \<Rightarrow> real) \<Rightarrow> nat \<Rightarrow> event list \<Rightarrow> real list" where
  "event_times strptime now i [] = []"
| "event_times strptime now i (e # es) =
     parse_datetime strptime (now i) (get_or_empty (e_date e)) (get_or_empty (e_time e))
       # event_times strptime now (Suc i) es"

text \<open>The statistics of the recent events of the IP, before first and last seen are set.\<close>

definition ip_stats :: "event list \<Rightarrow> string \<Rightarrow> aggregated_stats" where
  "ip_stats events ip =
     (let recent = recent_events events ip
      in fold stats_step recent (initial_stats (length recent)))"

text \<open>Sample data: events with all seven fields, and events without date and time.\<close>

definition mk_event ::
  "string \<Rightarrow> string \<Rightarrow> string \<Rightarrow> string \<Rightarrow> string \<Rightarrow> string \<Rightarrow> string \<Rightarrow> event" where
  "mk_event ip user status ua country date_str time_str =
     \<lparr>e_ip = Some ip, e_user = Some user, e_status = Some status, e_ua = Some ua,
      e_country = Some country, e_date = Some date_str, e_time = Some time_str\<rparr>"

definition undated_event :: "string \<Rightarrow> string \<Rightarrow> event" where
  "undated_event ip user =
     \<lparr>e_ip = Some ip, e_user = Some user, e_status = Some ''SUCCESS'',
      e_ua = Some ''Mozilla/5.0'', e_country = Some ''FR'', e_date = None, e_time = None\<rparr>"

text \<open>
  The library on the timestamps of the sample data, in seconds from 2024-01-01 00:00:00;
  it raises on every other string.
\<close>

definition sample_strptime :: "string \<Rightarrow> string \<Rightarrow> real option" where
  "sample_strptime s fmt =
     (if fmt = ''%Y-%m-%d %H:%M:%S''
      then map_of [(''2024-01-01 09:00:00'', 32400), (''2024-01-01 10:00:00'', 36000),
                   (''2024-01-01 10:03:00'', 36180), (''2024-01-01 10:06:00'', 36360),
                   (''2024-01-01 10:09:00'', 36540)] s
      else None)"

text \<open>A clock that starts at 12:00:00 and is an eighth of a second later at each reading.\<close>

definition sample_now :: "nat \<Rightarrow> real" where
  "sample_now i = 43200 + real i / 8"

text \<open>
  The float mean on the sample data. The gaps there are whole seconds or multiples of an
  eighth of a second, so each gap, each partial sum and the quotient are doubles and
  the float operations are exact: the machine returns the exact mean.
\<close>

definition sample_fmean :: "real list \<Rightarrow> real" where
  "sample_fmean gaps = sum_list gaps / real (length gaps)"

text \<open>Eight events of one IP on eight users, one of them admin.\<close>

definition spread_events :: "event list" where
  "spread_events = map (undated_event ''45.12.1.1'')
     [''u1'', ''u2'', ''u3'', ''u4'', ''u5'', ''u6'', ''u7'', ''admin'']"


text \<open>
  Four events of one IP and one user, all SUCCESS, country FR, with the given user
  agent, dates and times.
\<close>

definition quiet_events ::
  "string \<Rightarrow> string \<Rightarrow> string \<Rightarrow> (nat \<Rightarrow> string) \<Rightarrow> (nat \<Rightarrow> string) \<Rightarrow> event list" where
  "quiet_events ip user ua d t =
     [mk_event ip user ''SUCCESS'' ua ''FR'' (d 0) (t 0),
      mk_event ip user ''SUCCESS'' ua ''FR'' (d 1) (t 1),
      mk_event ip user ''SUCCESS'' ua ''FR'' (d 2) (t 2),
      mk_event ip user ''SUCCESS'' ua ''FR'' (d 3) (t 3)]"

definition sample_date :: "nat \<Rightarrow> string" where
  "sample_date i = ''2024-01-01''"

definition sample_time :: "nat \<Rightarrow> string" where
  "sample_time i = [''10:00:00'', ''10:03:00'', ''10:06:00'', ''10:09:00''] ! i"

definition empty_store :: store where
  "empty_store = \<lparr>alerts_file = [], scores_file = [], sanctions_file = [], saved = []\<rparr>"

definition sample_isoformat :: "real \<Rightarrow> string" where
  "sample_isoformat x = ''2024-01-01T12:00:00''"

definition sample_now_ev :: "string \<Rightarrow> nat \<Rightarrow> real" where
  "sample_now_ev ip = sample_now"

definition sample_now_s :: "string \<Rightarrow> real" where
  "sample_now_s ip = 43200"

text \<open>
  Two events with timestamps 10:00:00 and 10:03:00 and a third whose date and time are
  written in another format, which the library parses with neither format.
\<close>

definition dated_events :: "event list" where
  "dated_events =
     [mk_event ''5.39.1.1'' ''sara'' ''SUCCESS'' ''Mozilla/5.0'' ''FR'' ''2024-01-01'' ''10:00:00'',
      mk_event ''5.39.1.1'' ''sara'' ''SUCCESS'' ''Mozilla/5.0'' ''FR'' ''2024-01-01'' ''10:03:00'']"

definition garbled_event :: event where
  "garbled_event =
     mk_event ''5.39.1.1'' ''sara'' ''SUCCESS'' ''Mozilla/5.0'' ''FR'' ''01/01/2024'' ''10h06''"

section \<open>One turn of the detection loop\<close>

text \<open>
  The records that a turn of the loop writes for an IP, and the turn itself as a
  function on the state of the loop; \<open>detect_loop_step\<close> below shows that the loop is
  the iteration of this turn.
\<close>

definition score_entry ::
  "string \<Rightarrow> real \<times> score_components \<times> aggregated_stats option \<Rightarrow> threat_score" where
  "score_entry ip r =
     \<lparr>ts_entity_type = ''IP'', ts_entity_value = ip, ts_score = Some (fst r),
      ts_severity = get_severity_level (fst r), ts_components = fst (snd r),
      ts_stats = snd (snd r)\<rparr>"

definition new_alert_of :: "string \<Rightarrow> event list \<Rightarrow> real \<Rightarrow> aggregated_stats \<Rightarrow> alert" where
  "new_alert_of ip ip_events score stats =
     \<lparr>a_type = Some ''Threat Detection'', a_ip = Some ip, a_score = score,
      a_severity = get_severity_level score,
      a_total_attempts = st_total_attempts stats,
      a_failed_attempts = st_failed_attempts stats,
      a_unique_users = length (st_unique_users stats),
      a_countries = st_countries stats,
      a_date = get_or_empty (e_date (last ip_events)),
      a_time = get_or_empty (e_time (last ip_events))\<rparr>"

definition qualifies ::
  "(real list \<Rightarrow> real) \<Rightarrow> (string \<Rightarrow> string \<Rightarrow> real option) \<Rightarrow> (string \<Rightarrow> nat \<Rightarrow> real) \<Rightarrow> event list \<Rightarrow>
   string \<times> event list \<Rightarrow> bool" where
  "qualifies fmean strptime now_ev events p =
     (length (snd p) \<ge> 3 \<and>
      fst (calculate_threat_score_ip fmean strptime (now_ev (fst p)) events (fst p)) \<ge> 31)"

definition ip_step ::
  "(real list \<Rightarrow> real) \<Rightarrow> (string \<Rightarrow> string \<Rightarrow> real option) \<Rightarrow> (real \<Rightarrow> string) \<Rightarrow> (string \<Rightarrow> nat \<Rightarrow> real) \<Rightarrow>
   (string \<Rightarrow> real) \<Rightarrow> event list \<Rightarrow> string \<times> event list \<Rightarrow>
   alert list \<times> (string \<times> threat_score) list \<times> string option set \<times> store \<Rightarrow>
   alert list \<times> (string \<times> threat_score) list \<times> string option set \<times> store" where
  "ip_step fmean strptime isoformat now_ev now_s events p acc =
     (let ip = fst p;
          r = calculate_threat_score_ip fmean strptime (now_ev ip) events ip
      in if qualifies fmean strptime now_ev events p
         then (case snd (snd r) of
                 None \<Rightarrow> acc
               | Some stats \<Rightarrow>
                   (if Some ip \<in> fst (snd (snd acc)) then fst acc
                    else fst acc @ [new_alert_of ip (snd p) (fst r) stats],
                    AList.update (''IP:'' @ ip) (score_entry ip r) (fst (snd acc)),
                    insert (Some ip) (fst (snd (snd acc))),
                    apply_sanction isoformat (now_s ip) ''IP'' ip (fst r)
                      (get_severity_level (fst r)) (fst (snd r)) (snd (snd (snd acc)))))
         else acc)"

text \<open>
  Three failed logins on admin from one Russian address with a sqlmap user agent and no
  date or time.
\<close>

definition probe_event :: event where
  "probe_event = \<lparr>e_ip = Some ''45.12.1.1'', e_user = Some ''admin'', e_status = Some ''FAIL'',
     e_ua = Some ''sqlmap/1.7'', e_country = Some ''RU'', e_date = None, e_time = None\<rparr>"

definition probe_events :: "event list" where
  "probe_events = [probe_event, probe_event, probe_event]"

text \<open>
  A store of 1001 events: one old event of 45.12.1.1 at 09:00 (a failed login on admin
  with sqlmap from RU), then 997 events of a local address, then three quiet events of
  45.12.1.1 at 10:00, 10:03 and 10:06. The trailing 1000 events hold the last three
  events of the address and not the first.
\<close>

definition stale_event :: event where
  "stale_event =
     mk_event ''45.12.1.1'' ''admin'' ''FAIL'' ''sqlmap/1.7'' ''RU'' ''2024-01-01'' ''09:00:00''"

definition lan_event :: event where
  "lan_event =
     mk_event ''192.168.1.10'' ''sara'' ''SUCCESS'' ''Mozilla/5.0'' ''LAN'' ''2024-01-01'' ''09:30:00''"

definition window_events :: "event list" where
  "window_events =
     [mk_event ''45.12.1.1'' ''sara'' ''SUCCESS'' ''Mozilla/5.0'' ''FR'' ''2024-01-01'' ''10:00:00'',
      mk_event ''45.12.1.1'' ''sara'' ''SUCCESS'' ''Mozilla/5.0'' ''FR'' ''2024-01-01'' ''10:03:00'',
      mk_event ''45.12.1.1'' ''sara'' ''SUCCESS'' ''Mozilla/5.0'' ''FR'' ''2024-01-01'' ''10:06:00'']"

definition long_store :: "event list" where
  "long_store = stale_event # replicate 997 lan_event @ window_events"

section \<open>Properties\<close>

lemma update_fresh: "k \<notin> fst ` set xs \<Longrightarrow> AList.update k v xs = xs @ [(k, v)]"
  by (induction xs) auto

lemma expiry_passed_severity [simp]:
  "expiry_passed f n (s\<lparr>s_severity := x\<rparr>) = expiry_passed f n s"
  by (simp add: expiry_passed_def)

lemma get_sanctions_loop_char:
  "distinct (map fst xs) \<Longrightarrow> fst ` set cleaned \<inter> fst ` set xs = {} \<Longrightarrow>
   get_sanctions_loop f now scores xs (cleaned, changed) =
     (cleaned @ map (with_current_severity scores) (filter (sanction_kept f now scores) xs),
      changed \<or> (\<exists>p \<in> set xs. \<not> sanction_kept f now scores p \<or> severity_stale scores p))"
proof (induction xs arbitrary: cleaned changed)
  case Nil
  then show ?case by simp
next
  case (Cons p xs)
  obtain entity sanction where p: "p = (entity, sanction)" by (cases p)
  have d: "distinct (map fst xs)" and nin: "entity \<notin> fst ` set xs" and nc: "entity \<notin> fst ` set cleaned"
    and dj: "fst ` set cleaned \<inter> fst ` set xs = {}"
    using Cons.prems p by auto
  show ?case
  proof (cases "map_of scores entity")
    case None
    then show ?thesis using Cons.IH[OF d dj] p by (auto simp: sanction_kept_def)
  next
    case (Some ts)
    show ?thesis
    proof (cases "score_or_zero ts < 31")
      case True
      then show ?thesis using Cons.IH[OF d dj] p Some by (auto simp: sanction_kept_def)
    next
      case False
      let ?c = "get_severity_level_dashboard (score_or_zero ts)"
      show ?thesis
      proof (cases "expiry_passed f (now entity) sanction")
        case True
        then show ?thesis using Cons.IH[OF d dj] p Some False
          by (auto simp: sanction_kept_def Let_def)
      next
        case ne: False
        let ?S = "sanction\<lparr>s_severity := Some ?c\<rparr>"
        have dj': "fst ` set (cleaned @ [(entity, ?S)]) \<inter> fst ` set xs = {}"
          using dj nin by auto
        have step: "get_sanctions_loop f now scores (p # xs) (cleaned, changed) =
            get_sanctions_loop f now scores xs
              (cleaned @ [(entity, ?S)], changed \<or> s_severity sanction \<noteq> Some ?c)"
        proof (cases "s_severity sanction = Some ?c")
          case True
          have e: "?S = sanction" using True by simp
          have "get_sanctions_loop f now scores (p # xs) (cleaned, changed) =
            get_sanctions_loop f now scores xs (cleaned @ [(entity, sanction)], changed)"
            using p Some False ne nc True by (simp add: Let_def update_fresh)
          then show ?thesis unfolding e using True by simp
        next
          case nst: False
          then show ?thesis
            using p Some False ne nc by (simp add: Let_def update_fresh)
        qed
        have kp: "sanction_kept f now scores p" and fx: "with_current_severity scores p = (entity, ?S)"
          and st: "severity_stale scores p = (s_severity sanction \<noteq> Some ?c)"
          using p Some False ne by (simp_all add: sanction_kept_def with_current_severity_def severity_stale_def)
        show ?thesis
          unfolding step Cons.IH[OF d dj'] using kp fx st by auto
      qed
    qed
  qed
qed

lemma get_sanctions_char:
  assumes "distinct (map fst (sanctions_file st))"
  shows "get_sanctions f now st =
    (let cleaned = map (with_current_severity (scores_file st))
                     (filter (sanction_kept f now (scores_file st)) (sanctions_file st))
     in (cleaned,
         if \<exists>p \<in> set (sanctions_file st).
              \<not> sanction_kept f now (scores_file st) p \<or> severity_stale (scores_file st) p
         then st\<lparr>sanctions_file := cleaned, saved := saved st @ [SANCTIONS_FILE]\<rparr>
         else st))"
  using get_sanctions_loop_char[OF assms, of "[]" f now "scores_file st" False]
  by (simp add: get_sanctions_def Let_def)

text \<open>
  C2. The classifier uses inclusive lower bounds, highest tier first: a score of at
  least 86 is CRITICAL, of at least 61 and below 86 HIGH, of at least 31 and below 61
  MEDIUM, any lower score LOW; the dashboard's copy agrees with it; and the six boundary
  scores 85.99, 86.00, 60.99, 61.00, 30.99 and 31.00 classify as HIGH, CRITICAL, MEDIUM,
  HIGH, LOW and MEDIUM.
\<close>

theorem get_severity_level_inclusive_bounds:
  "(86 \<le> s \<longrightarrow> get_severity_level s = ''CRITICAL'') \<and>
   (61 \<le> s \<and> s < 86 \<longrightarrow> get_severity_level s = ''HIGH'') \<and>
   (31 \<le> s \<and> s < 61 \<longrightarrow> get_severity_level s = ''MEDIUM'') \<and>
   (s < 31 \<longrightarrow> get_severity_level s = ''LOW'') \<and>
   get_severity_level_dashboard s = get_severity_level s \<and>
   get_severity_level 85.99 = ''HIGH'' \<and> get_severity_level 86.00 = ''CRITICAL'' \<and>
   get_severity_level 60.99 = ''MEDIUM'' \<and> get_severity_level 61.00 = ''HIGH'' \<and>
   get_severity_level 30.99 = ''LOW'' \<and> get_severity_level 31.00 = ''MEDIUM''"
  by (simp add: get_severity_level_def get_severity_level_dashboard_def)

theorem get_severity_level_inclusive_bounds_witness:
  "61 \<le> (85.97 :: real) \<and> (85.97 :: real) < 86 \<and> get_severity_level 85.97 = ''HIGH'' \<and>
   get_severity_level_dashboard 85.97 = ''HIGH''"
  using get_severity_level_inclusive_bounds [of "85.97"] by simp

text \<open>
  C9. A manual lift with a type and a value: when no sanction is stored under the key
  type:value the answer is the 404 failure and the files are as before, nothing being
  saved; when one is stored the answer is the success, the sanction stays in the
  collection under its key with its active flag false, no key is added or removed, the
  other sanctions are as before, and the sanctions file is saved.
\<close>

theorem remove_sanction_lift:
  assumes "t \<noteq> []" and "v \<noteq> []"
  shows "(map_of (sanctions_file st) (t @ '':'' @ v) = None \<longrightarrow>
            r_status (fst (remove_sanction (Some t) (Some v) st)) = 404 \<and>
            \<not> r_success (fst (remove_sanction (Some t) (Some v) st)) \<and>
            snd (remove_sanction (Some t) (Some v) st) = st) \<and>
         (\<forall>sanction. map_of (sanctions_file st) (t @ '':'' @ v) = Some sanction \<longrightarrow>
            r_status (fst (remove_sanction (Some t) (Some v) st)) = 200 \<and>
            r_success (fst (remove_sanction (Some t) (Some v) st)) \<and>
            map_of (sanctions_file (snd (remove_sanction (Some t) (Some v) st))) (t @ '':'' @ v)
              = Some (sanction\<lparr>s_active := False\<rparr>) \<and>
            map fst (sanctions_file (snd (remove_sanction (Some t) (Some v) st)))
              = map fst (sanctions_file st) \<and>
            (\<forall>k. k \<noteq> t @ '':'' @ v \<longrightarrow>
               map_of (sanctions_file (snd (remove_sanction (Some t) (Some v) st))) k
                 = map_of (sanctions_file st) k) \<and>
            saved (snd (remove_sanction (Some t) (Some v) st)) = saved st @ [SANCTIONS_FILE] \<and>
            alerts_file (snd (remove_sanction (Some t) (Some v) st)) = alerts_file st \<and>
            scores_file (snd (remove_sanction (Some t) (Some v) st)) = scores_file st)"
proof -
  have keys: "\<And>k s xs. map_of xs k = Some s \<Longrightarrow> map fst (AList.update k (s') xs) = map fst xs" for s' :: sanction
    by (metis AList.update_keys domI dom_map_of_conv_image_fst image_set)
  show ?thesis
    using assms by (auto simp: remove_sanction_def truthy_def get_or_empty_def Let_def
        update_conv' keys)
qed

theorem remove_sanction_lift_witness:
  "''IP'' \<noteq> [] \<and> ''1.2.3.4'' \<noteq> [] \<and>
   map_of (sanctions_file (sample_store None)) (''IP'' @ '':'' @ ''1.2.3.4'')
     = Some (sample_sanction None) \<and>
   map_of (sanctions_file (snd (remove_sanction (Some ''IP'') (Some ''1.2.3.4'') (sample_store None))))
     (''IP'' @ '':'' @ ''1.2.3.4'') = Some ((sample_sanction None)\<lparr>s_active := False\<rparr>) \<and>
   map_of (sanctions_file (sample_store None)) (''IP'' @ '':'' @ ''9.9.9.9'') = None \<and>
   r_status (fst (remove_sanction (Some ''IP'') (Some ''9.9.9.9'') (sample_store None))) = 404 \<and>
   snd (remove_sanction (Some ''IP'') (Some ''9.9.9.9'') (sample_store None)) = sample_store None"
proof -
  have h1: "''IP'' \<noteq> []" and h2: "''1.2.3.4'' \<noteq> []" and h3: "''9.9.9.9'' \<noteq> []"
    by simp_all
  have k1: "map_of (sanctions_file (sample_store None)) (''IP'' @ '':'' @ ''1.2.3.4'')
     = Some (sample_sanction None)"
    by (simp add: sample_store_def)
  have k2: "map_of (sanctions_file (sample_store None)) (''IP'' @ '':'' @ ''9.9.9.9'') = None"
    by (simp add: sample_store_def)
  show ?thesis
    using remove_sanction_lift [OF h1 h2, of "sample_store None"]
      remove_sanction_lift [OF h1 h3, of "sample_store None"] k1 k2
    by simp
qed

lemma map_of_map_filter_distinct:
  assumes "distinct (map fst xs)" and "(k, v) \<in> set xs" and "P (k, v)"
    and g: "\<And>p. fst (g p) = fst p"
  shows "map_of (map g (filter P xs)) k = Some (snd (g (k, v)))"
  using assms(1,2)
proof (induction xs)
  case Nil
  then show ?case by simp
next
  case (Cons a xs)
  show ?case
  proof (cases "a = (k, v)")
    case True
    have "g (k, v) = (k, snd (g (k, v)))" using g[of "(k, v)"] by (cases "g (k, v)") simp
    then show ?thesis using True assms(3) by (metis filter.simps(2) list.simps(9) map_of_Cons_code(2))
  next
    case False
    then have "fst a \<noteq> k" using Cons.prems by (cases a) force
    then have "fst (g a) \<noteq> k" using g by simp
    then have "map_of (g a # ys) k = map_of ys k" for ys
      by (cases "g a") auto
    then show ?thesis using Cons False by auto
  qed
qed

lemma fst_with_current_severity [simp]: "fst (with_current_severity scores p) = fst p"
  by (simp add: with_current_severity_def)

text \<open>
  Reconciliation in general. For sanctions stored under distinct keys, \<open>get_sanctions\<close>
  keeps a sanction exactly when its entity has a score, the score (0 when the record
  has none) is at least 31, and the expiry check does not succeed: the check succeeds
  for an expiry that is present, parses to a naive timestamp and is before the clock.
  The kept sanctions are returned in their order with the severity of the current
  score, and the sanctions file is saved, with exactly the kept sanctions, if and only
  if a sanction was dropped or carried another severity; otherwise nothing is saved.
\<close>

theorem get_sanctions_reconciles:
  assumes "distinct (map fst (sanctions_file st))"
  shows "fst (get_sanctions f now st) =
           map (with_current_severity (scores_file st))
             (filter (sanction_kept f now (scores_file st)) (sanctions_file st)) \<and>
         (\<forall>entity sanction. (entity, sanction) \<in> set (sanctions_file st) \<longrightarrow>
            (entity \<in> fst ` set (fst (get_sanctions f now st)) \<longleftrightarrow>
               \<not> (map_of (scores_file st) entity = None \<or>
                  (\<exists>ts. map_of (scores_file st) entity = Some ts \<and> score_or_zero ts < 31) \<or>
                  (\<exists>x t. s_expires_at sanction = Some x \<and> x \<noteq> [] \<and> f x = Some (Naive t) \<and>
                     t < now entity)))) \<and>
         (\<forall>entity sanction'. (entity, sanction') \<in> set (fst (get_sanctions f now st)) \<longrightarrow>
            (\<exists>sanction ts. (entity, sanction) \<in> set (sanctions_file st) \<and>
               map_of (scores_file st) entity = Some ts \<and>
               sanction' = sanction\<lparr>s_severity :=
                 Some (get_severity_level_dashboard (score_or_zero ts))\<rparr>)) \<and>
         snd (get_sanctions f now st) =
           (if \<exists>p \<in> set (sanctions_file st).
                 \<not> sanction_kept f now (scores_file st) p \<or> severity_stale (scores_file st) p
            then st\<lparr>sanctions_file := fst (get_sanctions f now st),
                    saved := saved st @ [SANCTIONS_FILE]\<rparr>
            else st)"
proof -
  let ?sc = "scores_file st" and ?xs = "sanctions_file st"
  let ?cl = "map (with_current_severity ?sc) (filter (sanction_kept f now ?sc) ?xs)"
  have c: "fst (get_sanctions f now st) = ?cl"
    and s: "snd (get_sanctions f now st) =
           (if \<exists>p \<in> set ?xs. \<not> sanction_kept f now ?sc p \<or> severity_stale ?sc p
            then st\<lparr>sanctions_file := ?cl, saved := saved st @ [SANCTIONS_FILE]\<rparr> else st)"
    using get_sanctions_char[OF assms, of f now] by (simp_all add: Let_def)
  have keys: "fst ` set ?cl = fst ` {p \<in> set ?xs. sanction_kept f now ?sc p}"
    by (auto simp: image_iff)
  have kept_iff: "sanction_kept f now ?sc (entity, sanction) \<longleftrightarrow>
       \<not> (map_of ?sc entity = None \<or>
          (\<exists>ts. map_of ?sc entity = Some ts \<and> score_or_zero ts < 31) \<or>
          (\<exists>x t. s_expires_at sanction = Some x \<and> x \<noteq> [] \<and> f x = Some (Naive t) \<and>
             t < now entity))" for entity sanction
    by (auto simp: sanction_kept_def expiry_passed_def truthy_def get_or_empty_def
        split: option.splits py_datetime.splits)
  have a: "entity \<in> fst ` set ?cl \<longleftrightarrow> sanction_kept f now ?sc (entity, sanction)"
    if "(entity, sanction) \<in> set ?xs" for entity sanction
  proof
    assume "entity \<in> fst ` set ?cl"
    then obtain p where p: "p \<in> set ?xs" "sanction_kept f now ?sc p" "fst p = entity"
      unfolding keys by auto
    have "p = (entity, sanction)"
      using assms p that by (metis eq_key_imp_eq_value prod.collapse)
    then show "sanction_kept f now ?sc (entity, sanction)" using p by simp
  next
    assume "sanction_kept f now ?sc (entity, sanction)"
    then show "entity \<in> fst ` set ?cl" unfolding keys using that by force
  qed
  have b: "\<exists>sanction ts. (entity, sanction) \<in> set ?xs \<and> map_of ?sc entity = Some ts \<and>
               sanction' = sanction\<lparr>s_severity :=
                 Some (get_severity_level_dashboard (score_or_zero ts))\<rparr>"
    if "(entity, sanction') \<in> set ?cl" for entity sanction'
  proof -
    from that obtain p where p: "p \<in> set ?xs" "sanction_kept f now ?sc p"
      "with_current_severity ?sc p = (entity, sanction')" by auto
    then obtain ts where ts: "map_of ?sc (fst p) = Some ts"
      by (auto simp: sanction_kept_def split: option.splits)
    obtain a sn where pa: "p = (a, sn)" by (cases p)
    have e: "entity = a" and s': "sanction' = sn\<lparr>s_severity :=
        Some (get_severity_level_dashboard (score_or_zero ts))\<rparr>"
      using p(3) ts pa by (auto simp: with_current_severity_def)
    have "(entity, sn) \<in> set ?xs" using p(1) pa e by simp
    moreover have "map_of ?sc entity = Some ts" using ts pa e by simp
    ultimately show ?thesis using s' by blast
  qed
  show ?thesis
    unfolding c s using a b kept_iff by blast
qed

theorem get_sanctions_reconciles_witness:
  "distinct (map fst (sanctions_file (sample_store (Some ''1970-01-01T00:01:40'')))) \<and>
   fst (get_sanctions sample_fromisoformat sample_clock
          (sample_store (Some ''1970-01-01T00:01:40''))) = [] \<and>
   saved (snd (get_sanctions sample_fromisoformat sample_clock
          (sample_store (Some ''1970-01-01T00:01:40'')))) = [SANCTIONS_FILE]"
proof -
  have h: "distinct (map fst (sanctions_file (sample_store (Some ''1970-01-01T00:01:40''))))"
    by (simp add: sample_store_def)
  have k: "\<not> sanction_kept sample_fromisoformat sample_clock
      (scores_file (sample_store (Some ''1970-01-01T00:01:40'')))
      (''IP:1.2.3.4'', sample_sanction (Some ''1970-01-01T00:01:40''))"
    by (simp add: sanction_kept_def sample_store_def sample_score_def score_or_zero_def
        expiry_passed_def sample_sanction_def truthy_def get_or_empty_def
        sample_fromisoformat_def sample_clock_def)
  show ?thesis
    using h k get_sanctions_reconciles [OF h, of sample_fromisoformat sample_clock]
    by (simp add: sample_store_def)
qed

text \<open>
  C8 at a concrete input. The stored sanction of 1.2.3.4, whose entity has the score
  50, expires at the instant 0, written with a UTC offset; the clock is at 1000, so the
  expiry lies in the past. Reconciliation returns the sanction and saves nothing: the
  comparison of the clock with the offset-aware expiry raises, and the failure is
  swallowed before the sanction can be dropped.
\<close>

theorem aware_expiry_in_past_is_kept:
  "expiry_in_past sample_fromisoformat (sample_clock ''IP:1.2.3.4'')
     (sample_sanction (Some ''1970-01-01T00:00:00+00:00'')) \<and>
   fst (get_sanctions sample_fromisoformat sample_clock
          (sample_store (Some ''1970-01-01T00:00:00+00:00'')))
     = [(''IP:1.2.3.4'', sample_sanction (Some ''1970-01-01T00:00:00+00:00''))] \<and>
   snd (get_sanctions sample_fromisoformat sample_clock
          (sample_store (Some ''1970-01-01T00:00:00+00:00'')))
     = sample_store (Some ''1970-01-01T00:00:00+00:00'')"
proof -
  have a: "expiry_in_past sample_fromisoformat (sample_clock ''IP:1.2.3.4'')
     (sample_sanction (Some ''1970-01-01T00:00:00+00:00''))"
    by (simp add: expiry_in_past_def sample_sanction_def truthy_def get_or_empty_def
        sample_fromisoformat_def sample_clock_def)
  have b: "\<not> expiry_passed sample_fromisoformat (sample_clock ''IP:1.2.3.4'')
     (sample_sanction (Some ''1970-01-01T00:00:00+00:00''))"
    by (simp add: expiry_passed_def sample_sanction_def truthy_def get_or_empty_def
        sample_fromisoformat_def)
  have c: "s_severity (sample_sanction (Some ''1970-01-01T00:00:00+00:00''))
     = Some (get_severity_level_dashboard 50)"
    by (simp add: sample_sanction_def get_severity_level_dashboard_def)
  have d: "get_sanctions_loop sample_fromisoformat sample_clock [(''IP:1.2.3.4'', sample_score)]
       [(''IP:1.2.3.4'', sample_sanction (Some ''1970-01-01T00:00:00+00:00''))] ([], False)
     = ([(''IP:1.2.3.4'', sample_sanction (Some ''1970-01-01T00:00:00+00:00''))], False)"
    using b c by (simp add: score_or_zero_def sample_score_def)
  show ?thesis
    using a d by (simp add: get_sanctions_def sample_store_def)
qed

text \<open>
  C10. A stored sanction whose expiry is present and not empty but is no ISO timestamp
  for the library, and whose entity has a score of at least 31, is kept by
  reconciliation with the severity of that score: the expiry check does not succeed,
  exactly as for the same sanction without an expiry.
\<close>

theorem malformed_expiry_is_kept:
  assumes "distinct (map fst (sanctions_file st))"
    and "(entity, sanction) \<in> set (sanctions_file st)"
    and "s_expires_at sanction = Some x" and "x \<noteq> []" and "f x = None"
    and "map_of (scores_file st) entity = Some ts" and "score_or_zero ts \<ge> 31"
  shows "\<not> expiry_passed f (now entity) sanction \<and>
         expiry_passed f (now entity) sanction
           = expiry_passed f (now entity) (sanction\<lparr>s_expires_at := None\<rparr>) \<and>
         map_of (fst (get_sanctions f now st)) entity
           = Some (sanction\<lparr>s_severity := Some (get_severity_level_dashboard (score_or_zero ts))\<rparr>)"
proof -
  have ne: "\<not> expiry_passed f (now entity) sanction"
    using assms(3,4,5) by (simp add: expiry_passed_def truthy_def get_or_empty_def)
  have none: "\<not> expiry_passed f (now entity) (sanction\<lparr>s_expires_at := None\<rparr>)"
    by (simp add: expiry_passed_def truthy_def)
  have kp: "sanction_kept f now (scores_file st) (entity, sanction)"
    using ne assms(6,7) by (simp add: sanction_kept_def)
  have "map_of (map (with_current_severity (scores_file st))
           (filter (sanction_kept f now (scores_file st)) (sanctions_file st))) entity
        = Some (snd (with_current_severity (scores_file st) (entity, sanction)))"
    using assms(1,2) kp by (rule map_of_map_filter_distinct) simp
  then have "map_of (fst (get_sanctions f now st)) entity
           = Some (sanction\<lparr>s_severity := Some (get_severity_level_dashboard (score_or_zero ts))\<rparr>)"
    using get_sanctions_char[OF assms(1), of f now] assms(6)
    by (simp add: Let_def with_current_severity_def)
  then show ?thesis using ne none by simp
qed

theorem malformed_expiry_is_kept_witness:
  "distinct (map fst (sanctions_file (sample_store (Some ''tomorrow'')))) \<and>
   (''IP:1.2.3.4'', sample_sanction (Some ''tomorrow''))
     \<in> set (sanctions_file (sample_store (Some ''tomorrow''))) \<and>
   s_expires_at (sample_sanction (Some ''tomorrow'')) = Some ''tomorrow'' \<and>
   ''tomorrow'' \<noteq> [] \<and> sample_fromisoformat ''tomorrow'' = None \<and>
   map_of (scores_file (sample_store (Some ''tomorrow''))) ''IP:1.2.3.4'' = Some sample_score \<and>
   score_or_zero sample_score \<ge> 31 \<and>
   map_of (fst (get_sanctions sample_fromisoformat sample_clock (sample_store (Some ''tomorrow''))))
     ''IP:1.2.3.4'' = Some (sample_sanction (Some ''tomorrow''))"
proof -
  have h1: "distinct (map fst (sanctions_file (sample_store (Some ''tomorrow''))))"
    and h2: "(''IP:1.2.3.4'', sample_sanction (Some ''tomorrow''))
       \<in> set (sanctions_file (sample_store (Some ''tomorrow'')))"
    and h6: "map_of (scores_file (sample_store (Some ''tomorrow''))) ''IP:1.2.3.4'' = Some sample_score"
    by (simp_all add: sample_store_def)
  have h3: "s_expires_at (sample_sanction (Some ''tomorrow'')) = Some ''tomorrow''"
    by (simp add: sample_sanction_def)
  have h4: "''tomorrow'' \<noteq> []" by simp
  have h5: "sample_fromisoformat ''tomorrow'' = None"
    by (simp add: sample_fromisoformat_def)
  have h7: "score_or_zero sample_score \<ge> 31"
    by (simp add: score_or_zero_def sample_score_def)
  have sv: "(sample_sanction (Some ''tomorrow''))\<lparr>s_severity :=
      Some (get_severity_level_dashboard (score_or_zero sample_score))\<rparr>
      = sample_sanction (Some ''tomorrow'')"
    by (simp add: sample_sanction_def score_or_zero_def sample_score_def
        get_severity_level_dashboard_def)
  show ?thesis
    using malformed_expiry_is_kept [where f = sample_fromisoformat and x = "''tomorrow''"
        and now = sample_clock, OF h1 h2 h3 h4 h5 h6 h7] h1 h2 h3 h5 h6 h7 sv
    by simp
qed

lemma stats_loop_eq:
  "stats_loop sp now i es (st, tms) = (fold stats_step es st, tms @ event_times sp now i es)"
  by (induction es arbitrary: i st tms) simp_all

lemma ip_times_eq:
  "ip_times sp now events ip = sort (event_times sp now 0 (recent_events events ip))"
  by (simp add: ip_times_def stats_loop_eq Let_def)


lemma calculate_no_events:
  "filter (\<lambda>e. e_ip e = Some ip) events = [] \<Longrightarrow>
   calculate_threat_score_ip fm sp now events ip = (0, zero_components, None)"
  by (simp add: calculate_threat_score_ip_def)

lemma stats_if:
  "st_failed_attempts (if c then x else y) = (if c then st_failed_attempts x else st_failed_attempts y)"
  "st_user_agents (if c then x else y) = (if c then st_user_agents x else st_user_agents y)"
  "st_countries (if c then x else y) = (if c then st_countries x else st_countries y)"
  "st_unique_users (if c then x else y) = (if c then st_unique_users x else st_unique_users y)"
  "st_targeted_hvt (if c then x else y) = (if c then st_targeted_hvt x else st_targeted_hvt y)"
  by simp_all

lemma calculate_components:
  assumes "filter (\<lambda>e. e_ip e = Some ip) events \<noteq> []"
  shows "failed_attempts (fst (snd (calculate_threat_score_ip fm sp now events ip)))
           = failed_attempts_score (st_failed_attempts (ip_stats events ip))"
    and "attack_speed (fst (snd (calculate_threat_score_ip fm sp now events ip)))
           = attack_speed_score fm (ip_times sp now events ip)"
    and "tool_detection (fst (snd (calculate_threat_score_ip fm sp now events ip)))
           = tool_detection_score (st_user_agents (ip_stats events ip))"
    and "geographic_risk (fst (snd (calculate_threat_score_ip fm sp now events ip)))
           = geo_loop (st_countries (ip_stats events ip)) 0"
    and "user_spread (fst (snd (calculate_threat_score_ip fm sp now events ip)))
           = (if st_targeted_hvt (ip_stats events ip) \<noteq> []
              then min 100 (user_spread_score (length (st_unique_users (ip_stats events ip))) + 5)
              else user_spread_score (length (st_unique_users (ip_stats events ip))))"
    and "persistence (fst (snd (calculate_threat_score_ip fm sp now events ip)))
           = persistence_score (ip_times sp now events ip)"
    and "fst (calculate_threat_score_ip fm sp now events ip)
           = min (py_round2 (components_sum (fst (snd (calculate_threat_score_ip fm sp now events ip))))) 100"
  using assms
  apply (simp_all add: calculate_threat_score_ip_def Let_def stats_loop_eq ip_stats_def ip_times_eq
      recent_events_def zero_components_def stats_if split del: if_split cong: if_cong)
  apply simp_all
  done

lemma calculate_stats:
  assumes "filter (\<lambda>e. e_ip e = Some ip) events \<noteq> []"
  shows "snd (snd (calculate_threat_score_ip fm sp now events ip))
           = Some (if ip_times sp now events ip \<noteq> []
                   then (ip_stats events ip)\<lparr>st_first_seen := Some (hd (ip_times sp now events ip)),
                          st_last_seen := Some (last (ip_times sp now events ip))\<rparr>
                   else ip_stats events ip)"
  using assms
  by (simp add: calculate_threat_score_ip_def Let_def stats_loop_eq ip_stats_def ip_times_eq
      recent_events_def split_def split del: if_split cong: if_cong)

lemma py_round2_nonneg: "0 \<le> x \<Longrightarrow> 0 \<le> py_round2 x"
proof -
  assume "0 \<le> x"
  then have "0 \<le> \<lfloor>x * 100\<rfloor>" by simp
  then show ?thesis by (simp add: py_round2_def Let_def)
qed

lemma failed_attempts_score_bounds:
  "0 \<le> failed_attempts_score n \<and> failed_attempts_score n \<le> 25"
proof (cases "BRUTE_FORCE_FAIL_THRESHOLD \<le> n")
  case True
  let ?over = "n - (BRUTE_FORCE_FAIL_THRESHOLD - 1)"
  have w: "failed_attempts SCORING_WEIGHTS = 25" by (simp add: SCORING_WEIGHTS_def)
  have "0 \<le> 25 * (1 - exp (- real ?over / 3))" by simp
  then have nn: "0 \<le> py_round2 (25 * (1 - exp (- real ?over / 3)))"
    by (rule py_round2_nonneg)
  have e: "failed_attempts_score n = min 25 (py_round2 (25 * (1 - exp (- real ?over / 3))))"
    unfolding failed_attempts_score_def Let_def w using True by (simp only: if_True)
  have lo: "0 \<le> min 25 (py_round2 (25 * (1 - exp (- real ?over / 3))))"
    by (rule min.boundedI) (simp, rule nn)
  have hi: "min 25 (py_round2 (25 * (1 - exp (- real ?over / 3)))) \<le> 25"
    by (rule min.cobounded1)
  show ?thesis unfolding e using lo hi by blast
next
  case False
  then show ?thesis by (simp add: failed_attempts_score_def Let_def)
qed

lemma speed_tier_values: "speed_tier avg \<in> {0, 10, 16, 20}"
  by (simp add: speed_tier_def double_0_6_def SCORING_WEIGHTS_def py_round2_def)

lemma speed_tier_thresholds:
  "speed_tier avg
     = (if avg < 0.25 then 20 else if avg < double_0_6 then 16 else if avg < 1.5 then 10 else 0)"
  by (simp add: speed_tier_def double_0_6_def SCORING_WEIGHTS_def py_round2_def)

lemma attack_speed_score_bounds:
  "0 \<le> attack_speed_score fm tms \<and> attack_speed_score fm tms \<le> 20"
proof -
  have "0 \<le> speed_tier a \<and> speed_tier a \<le> 20" for a
    using speed_tier_values[of a] by auto
  then show ?thesis by (simp add: attack_speed_score_def Let_def)
qed

lemma tool_detection_score_values: "tool_detection_score uas \<in> {0, 15}"
  by (induction uas) (simp_all add: SCORING_WEIGHTS_def)

lemma geo_loop_bounds: "0 \<le> g \<Longrightarrow> g \<le> 10 \<Longrightarrow> 0 \<le> geo_loop cs g \<and> geo_loop cs g \<le> 10"
  by (induction cs arbitrary: g) (simp_all add: SCORING_WEIGHTS_def)

lemma user_spread_score_values: "user_spread_score n \<in> {0, 7.5, 12, 15}"
  by (simp add: user_spread_score_def SCORING_WEIGHTS_def py_round2_def USER_SPREAD_THRESHOLD_def)

lemma persistence_score_values: "persistence_score tms \<in> {0, 9, 15}"
  by (simp add: persistence_score_def SCORING_WEIGHTS_def py_round2_def Let_def)

text \<open>
  C1, as corrected. For every event list and IP, five components stay between 0 and
  their weights (failed_attempts 25, attack_speed 20, tool_detection 15,
  geographic_risk 10, persistence 15); user_spread stays between 0 and 20, the weight 15
  plus the high-value-target bonus of 5, and if the statistics list no high-value
  target it stays within its weight 15; the total is the minimum of 100 and the sum of
  the components rounded to two places.
\<close>

theorem calculate_threat_score_ip_component_bounds:
  "(let (score, c, stats) = calculate_threat_score_ip fmean strptime now events ip
    in 0 \<le> failed_attempts c \<and> failed_attempts c \<le> failed_attempts SCORING_WEIGHTS \<and>
       0 \<le> attack_speed c \<and> attack_speed c \<le> attack_speed SCORING_WEIGHTS \<and>
       0 \<le> tool_detection c \<and> tool_detection c \<le> tool_detection SCORING_WEIGHTS \<and>
       0 \<le> geographic_risk c \<and> geographic_risk c \<le> geographic_risk SCORING_WEIGHTS \<and>
       0 \<le> user_spread c \<and> user_spread c \<le> user_spread SCORING_WEIGHTS + 5 \<and>
       ((case stats of None \<Rightarrow> True | Some a \<Rightarrow> st_targeted_hvt a = [])
          \<longrightarrow> user_spread c \<le> user_spread SCORING_WEIGHTS) \<and>
       0 \<le> persistence c \<and> persistence c \<le> persistence SCORING_WEIGHTS \<and>
       score = min 100 (py_round2 (components_sum c)))"
proof (cases "filter (\<lambda>e. e_ip e = Some ip) events = []")
  case True
  show ?thesis
    unfolding calculate_no_events[OF True]
    by (simp add: zero_components_def SCORING_WEIGHTS_def components_sum_def py_round2_def)
next
  case False
  let ?r = "calculate_threat_score_ip fmean strptime now events ip"
  let ?c = "fst (snd ?r)"
  note cc = calculate_components[OF False, of fmean strptime now]
  have f: "0 \<le> failed_attempts ?c \<and> failed_attempts ?c \<le> 25"
    unfolding cc by (rule failed_attempts_score_bounds)
  have a: "0 \<le> attack_speed ?c \<and> attack_speed ?c \<le> 20"
    unfolding cc by (rule attack_speed_score_bounds)
  have t: "0 \<le> tool_detection ?c \<and> tool_detection ?c \<le> 15"
    unfolding cc using tool_detection_score_values[of "st_user_agents (ip_stats events ip)"] by auto
  have g: "0 \<le> geographic_risk ?c \<and> geographic_risk ?c \<le> 10"
    unfolding cc by (rule geo_loop_bounds) simp_all
  have u: "0 \<le> user_spread ?c \<and> user_spread ?c \<le> 20"
    unfolding cc
    using user_spread_score_values[of "length (st_unique_users (ip_stats events ip))"] by auto
  have u': "st_targeted_hvt (ip_stats events ip) = [] \<Longrightarrow> user_spread ?c \<le> 15"
    unfolding cc
    using user_spread_score_values[of "length (st_unique_users (ip_stats events ip))"] by auto
  have p: "0 \<le> persistence ?c \<and> persistence ?c \<le> 15"
    unfolding cc using persistence_score_values[of "ip_times strptime now events ip"] by auto
  have s: "fst ?r = min 100 (py_round2 (components_sum ?c))"
    using cc(7) by (simp add: min.commute)
  have h: "(case snd (snd ?r) of None \<Rightarrow> True | Some a \<Rightarrow> st_targeted_hvt a = [])
      \<Longrightarrow> st_targeted_hvt (ip_stats events ip) = []"
    unfolding calculate_stats[OF False] by (simp split: if_splits)
  show ?thesis
    using f a t g u u' p s h by (simp add: split_def SCORING_WEIGHTS_def)
qed

theorem calculate_threat_score_ip_component_bounds_witness:
  "user_spread (fst (snd (calculate_threat_score_ip sample_fmean sample_strptime sample_now spread_events ''45.12.1.1'')))
     \<le> 20 \<and>
   fst (calculate_threat_score_ip sample_fmean sample_strptime sample_now spread_events ''45.12.1.1'')
     = min 100 (py_round2 (components_sum
         (fst (snd (calculate_threat_score_ip sample_fmean sample_strptime sample_now spread_events ''45.12.1.1'')))))"
  using calculate_threat_score_ip_component_bounds
    [of sample_fmean sample_strptime sample_now spread_events "''45.12.1.1''"]
  by (simp add: split_def Let_def SCORING_WEIGHTS_def)

lemma spread_events_stats:
  "st_unique_users (ip_stats spread_events ''45.12.1.1'')
     = [''u1'', ''u2'', ''u3'', ''u4'', ''u5'', ''u6'', ''u7'', ''admin'']"
  "st_targeted_hvt (ip_stats spread_events ''45.12.1.1'') = [''admin'']"
  by (simp_all add: ip_stats_def recent_events_def last_n_def spread_events_def undated_event_def
      initial_stats_def stats_step_def truthy_def get_or_empty_def set_add_def
      HIGH_VALUE_TARGETS_def Let_def)

text \<open>
  C1 as stated fails: eight users, one of them admin, give user_spread the tier 12 plus
  the bonus 5, which is 17 and above the weight 15.
\<close>

theorem user_spread_exceeds_weight_counterexample:
  "user_spread (fst (snd (calculate_threat_score_ip sample_fmean sample_strptime sample_now spread_events ''45.12.1.1'')))
     = 17 \<and>
   \<not> user_spread (fst (snd (calculate_threat_score_ip sample_fmean sample_strptime sample_now spread_events ''45.12.1.1'')))
     \<le> user_spread SCORING_WEIGHTS"
proof -
  have ne: "filter (\<lambda>e. e_ip e = Some ''45.12.1.1'') spread_events \<noteq> []"
    by (simp add: spread_events_def undated_event_def)
  show ?thesis
    unfolding calculate_components(5)[OF ne] spread_events_stats
    by (simp add: user_spread_score_def SCORING_WEIGHTS_def py_round2_def USER_SPREAD_THRESHOLD_def)
qed






lemma quiet_recent:
  "recent_events (quiet_events ip u ua d t) ip = quiet_events ip u ua d t"
  by (simp add: recent_events_def last_n_def quiet_events_def mk_event_def)

lemma stats_step_quiet:
  assumes "u \<noteq> []"
  shows "st_failed_attempts (stats_step (mk_event ip u ''SUCCESS'' ua ''FR'' dd tt) st)
           = st_failed_attempts st"
    and "st_unique_users (stats_step (mk_event ip u ''SUCCESS'' ua ''FR'' dd tt) st)
           = set_add u (st_unique_users st)"
    and "st_countries (stats_step (mk_event ip u ''SUCCESS'' ua ''FR'' dd tt) st)
           = set_add ''FR'' (st_countries st)"
    and "st_user_agents (stats_step (mk_event ip u ''SUCCESS'' ua ''FR'' dd tt) st)
           = (if ua = [] then st_user_agents st else set_add ua (st_user_agents st))"
    and "st_targeted_hvt (stats_step (mk_event ip u ''SUCCESS'' ua ''FR'' dd tt) st)
           = (if u \<in> set HIGH_VALUE_TARGETS then set_add u (st_targeted_hvt st)
              else st_targeted_hvt st)"
  using assms
  by (simp_all add: stats_step_def mk_event_def truthy_def get_or_empty_def Let_def)

lemma quiet_stats:
  assumes "u \<noteq> []"
  shows "st_failed_attempts (ip_stats (quiet_events ip u ua d t) ip) = 0"
    and "st_unique_users (ip_stats (quiet_events ip u ua d t) ip) = [u]"
    and "st_countries (ip_stats (quiet_events ip u ua d t) ip) = [''FR'']"
    and "st_user_agents (ip_stats (quiet_events ip u ua d t) ip) = (if ua = [] then [] else [ua])"
    and "st_targeted_hvt (ip_stats (quiet_events ip u ua d t) ip)
           = (if u \<in> set HIGH_VALUE_TARGETS then [u] else [])"
  unfolding ip_stats_def quiet_recent Let_def
  by (simp_all add: quiet_events_def stats_step_quiet[OF assms] initial_stats_def set_add_def)

lemma quiet_times:
  assumes "\<And>i n. i < 4 \<Longrightarrow> parse_datetime sp n (d i) (t i) = T + 180 * real i"
  shows "ip_times sp now (quiet_events ip u ua d t) ip = [T, T + 180, T + 360, T + 540]"
  unfolding ip_times_eq quiet_recent
  by (simp add: quiet_events_def mk_event_def get_or_empty_def assms)

lemma quiet_score:
  assumes "u \<noteq> []" and "\<not> is_suspicious ua"
    and "\<And>i n. i < 4 \<Longrightarrow> parse_datetime sp n (d i) (t i) = T + 180 * real i"
    and "fm [180] = 180"
  shows "fst (calculate_threat_score_ip fm sp now (quiet_events ip u ua d t) ip)
           = (if u \<in> set HIGH_VALUE_TARGETS then 14 else 9)"
proof -
  let ?ev = "quiet_events ip u ua d t"
  have ne: "filter (\<lambda>e. e_ip e = Some ip) ?ev \<noteq> []"
    by (simp add: quiet_events_def mk_event_def)
  note cc = calculate_components[OF ne, of fm sp now]
  have tm: "ip_times sp now ?ev ip = [T, T + 180, T + 360, T + 540]"
    using assms(3) by (rule quiet_times)
  have f: "failed_attempts (fst (snd (calculate_threat_score_ip fm sp now ?ev ip))) = 0"
    unfolding cc quiet_stats[OF assms(1)]
    by (simp add: failed_attempts_score_def BRUTE_FORCE_FAIL_THRESHOLD_def)
  have a: "attack_speed (fst (snd (calculate_threat_score_ip fm sp now ?ev ip))) = 0"
    unfolding cc tm using assms(4)
    by (simp add: attack_speed_score_def trimmed_diffs_def py_slice_def speed_tier_def double_0_6_def
        SCORING_WEIGHTS_def)
  have tl: "tool_detection (fst (snd (calculate_threat_score_ip fm sp now ?ev ip))) = 0"
    unfolding cc quiet_stats[OF assms(1)] using assms(2) by simp
  have g: "geographic_risk (fst (snd (calculate_threat_score_ip fm sp now ?ev ip))) = 0"
    unfolding cc quiet_stats[OF assms(1)]
    by (simp add: HIGH_RISK_COUNTRIES_def MEDIUM_RISK_COUNTRIES_def)
  have us: "user_spread (fst (snd (calculate_threat_score_ip fm sp now ?ev ip)))
      = (if u \<in> set HIGH_VALUE_TARGETS then 5 else 0)"
    unfolding cc quiet_stats[OF assms(1)]
    by (simp add: user_spread_score_def USER_SPREAD_THRESHOLD_def)
  have p: "persistence (fst (snd (calculate_threat_score_ip fm sp now ?ev ip))) = 9"
    unfolding cc tm
    by (simp add: persistence_score_def PERSISTENCE_MINUTES_def SCORING_WEIGHTS_def py_round2_def)
  show ?thesis
    unfolding cc(7) components_sum_def f a tl g us p
    by (simp add: py_round2_def)
qed

lemma detect_loop_few:
  "length g < 3 \<Longrightarrow>
   detect_loop fm sp isof now_ev now_s events ((ip, g) # rest) acc
     = detect_loop fm sp isof now_ev now_s events rest acc"
  by (cases acc) simp

lemma detect_loop_low:
  "fst (calculate_threat_score_ip fm sp (now_ev ip) events ip) < 31 \<Longrightarrow>
   detect_loop fm sp isof now_ev now_s events ((ip, g) # rest) acc
     = detect_loop fm sp isof now_ev now_s events rest acc"
  by (cases acc) (simp add: split_def Let_def)

lemma quiet_groups:
  "group_by_ip (quiet_events ip u ua d t) []
     = (if ip \<noteq> [] \<and> ip \<notin> set LOCAL_IPS then [(ip, quiet_events ip u ua d t)] else [])"
  by (simp add: quiet_events_def mk_event_def truthy_def get_or_empty_def)

lemma quiet_latest: "last_n 1000 (quiet_events ip u ua d t) = quiet_events ip u ua d t"
  by (simp add: last_n_def quiet_events_def)

text \<open>
  C5, as corrected. For exactly 4 events of one IP, all SUCCESS, on one user, from
  country FR, with a user agent that is not suspicious and timestamps 3 minutes apart,
  the total score is 9, the persistence tier of a span of 9 minutes, or 14 when the
  user is a high-value target; the detection cycle on this window leaves the alerts,
  the scores and the sanctions as they were and only saves the alerts and the scores.
  The one gap that remains after trimming is 180 seconds, and the float mean of that
  single gap is 180.
\<close>

theorem quiet_ip_is_scored_low_and_ignored:
  assumes "u \<noteq> []" and "\<not> is_suspicious ua"
    and "\<And>i n. i < 4 \<Longrightarrow> parse_datetime strptime n (d i) (t i) = T + 180 * real i"
    and "fmean [180] = 180"
  shows "fst (calculate_threat_score_ip fmean strptime now (quiet_events ip u ua d t) ip)
           = (if u \<in> set HIGH_VALUE_TARGETS then 14 else 9) \<and>
         detect_threats_by_ip fmean strptime isoformat now_ev now_s (quiet_events ip u ua d t) st
           = Inr (st\<lparr>saved := saved st @ [ALERT_FILE, SCORES_FILE]\<rparr>)"
proof -
  let ?ev = "quiet_events ip u ua d t"
  have sc: "fst (calculate_threat_score_ip fmean strptime nw ?ev ip)
      = (if u \<in> set HIGH_VALUE_TARGETS then 14 else 9)" for nw
    using assms by (rule quiet_score)
  have low: "fst (calculate_threat_score_ip fmean strptime (now_ev ip) ?ev ip) < 31"
    unfolding sc by simp
  have loop: "detect_loop fmean strptime isoformat now_ev now_s ?ev (group_by_ip ?ev []) acc = Inr acc"
    for acc
    unfolding quiet_groups
    using detect_loop_low[where now_ev = now_ev and ip = ip and sp = strptime, OF low] by simp
  have "detect_threats_by_ip fmean strptime isoformat now_ev now_s ?ev st
      = Inr (st\<lparr>saved := saved st @ [ALERT_FILE, SCORES_FILE]\<rparr>)"
    unfolding detect_threats_by_ip_def Let_def quiet_latest loop by simp
  then show ?thesis using sc by simp
qed

lemma sample_times_parse:
  assumes "i < 4"
  shows "parse_datetime sample_strptime n (sample_date i) (sample_time i) = 36000 + 180 * real i"
proof -
  from assms have "i = 0 \<or> i = 1 \<or> i = 2 \<or> i = 3" by arith
  then show ?thesis
    by (elim disjE)
       (simp_all add: parse_datetime_def sample_strptime_def sample_date_def sample_time_def)
qed

lemma mozilla_not_suspicious: "\<not> is_suspicious ''Mozilla/5.0''"
  by (simp add: is_suspicious_def lower_def lower_char_def SUSPICIOUS_USER_AGENTS_def sublist_code)

theorem quiet_ip_is_scored_low_and_ignored_witness:
  "''sara'' \<noteq> [] \<and> \<not> is_suspicious ''Mozilla/5.0'' \<and>
   parse_datetime sample_strptime 0 (sample_date 0) (sample_time 0) = 36000 \<and>
   parse_datetime sample_strptime 0 (sample_date 1) (sample_time 1) = 36180 \<and>
   parse_datetime sample_strptime 0 (sample_date 2) (sample_time 2) = 36360 \<and>
   parse_datetime sample_strptime 0 (sample_date 3) (sample_time 3) = 36540 \<and>
   sample_fmean [180] = 180 \<and>
   fst (calculate_threat_score_ip sample_fmean sample_strptime sample_now
          (quiet_events ''5.39.1.1'' ''sara'' ''Mozilla/5.0'' sample_date sample_time) ''5.39.1.1'') = 9 \<and>
   detect_threats_by_ip sample_fmean sample_strptime sample_isoformat sample_now_ev sample_now_s
       (quiet_events ''5.39.1.1'' ''sara'' ''Mozilla/5.0'' sample_date sample_time) empty_store
     = Inr (empty_store\<lparr>saved := [ALERT_FILE, SCORES_FILE]\<rparr>)"
proof -
  have h1: "''sara'' \<noteq> []" by simp
  have h3: "\<And>i n. i < 4 \<Longrightarrow>
      parse_datetime sample_strptime n (sample_date i) (sample_time i) = 36000 + 180 * real i"
    by (rule sample_times_parse)
  have nh: "''sara'' \<notin> set HIGH_VALUE_TARGETS" by (simp add: HIGH_VALUE_TARGETS_def)
  have h4: "sample_fmean [180] = 180" by (simp add: sample_fmean_def)
  show ?thesis
    using quiet_ip_is_scored_low_and_ignored [where u = "''sara''" and ua = "''Mozilla/5.0''"
        and strptime = sample_strptime and d = sample_date and t = sample_time and T = 36000
        and now = sample_now and ip = "''5.39.1.1''" and isoformat = sample_isoformat
        and now_ev = sample_now_ev and now_s = sample_now_s and st = empty_store
        and fmean = sample_fmean,
        OF h1 mozilla_not_suspicious h3 h4]
      h3 [of 0 0] h3 [of 1 0] h3 [of 2 0] h3 [of 3 0] h4 mozilla_not_suspicious nh
    by (simp add: empty_store_def)
qed

text \<open>
  C5 as stated fails in its score: the four events of the scenario, at 10:00, 10:03,
  10:06 and 10:09, score 9 and not 0.
\<close>

theorem quiet_ip_score_not_zero_counterexample:
  "fst (calculate_threat_score_ip sample_fmean sample_strptime sample_now
          (quiet_events ''5.39.1.1'' ''sara'' ''Mozilla/5.0'' sample_date sample_time) ''5.39.1.1'') = 9 \<and>
   fst (calculate_threat_score_ip sample_fmean sample_strptime sample_now
          (quiet_events ''5.39.1.1'' ''sara'' ''Mozilla/5.0'' sample_date sample_time) ''5.39.1.1'') \<noteq> 0"
proof -
  have h1: "''sara'' \<noteq> []" by simp
  have h3: "\<And>i n. i < 4 \<Longrightarrow>
      parse_datetime sample_strptime n (sample_date i) (sample_time i) = 36000 + 180 * real i"
    by (rule sample_times_parse)
  have nh: "''sara'' \<notin> set HIGH_VALUE_TARGETS" by (simp add: HIGH_VALUE_TARGETS_def)
  have h4: "sample_fmean [180] = 180" by (simp add: sample_fmean_def)
  show ?thesis
    using quiet_score [where u = "''sara''" and ua = "''Mozilla/5.0''"
        and sp = sample_strptime and d = sample_date and t = sample_time and T = 36000
        and now = sample_now and ip = "''5.39.1.1''" and fm = sample_fmean,
        OF h1 mozilla_not_suspicious h3 h4] nh
    by simp
qed

lemma parse_datetime_fallback:
  "strptime (d @ '' '' @ t) ''%Y-%m-%d %H:%M:%S.%f'' = None \<Longrightarrow>
   strptime (d @ '' '' @ t) ''%Y-%m-%d %H:%M:%S'' = None \<Longrightarrow>
   parse_datetime strptime now d t = now"
  by (simp add: parse_datetime_def)

lemma st_total_attempts_step [simp]:
  "st_total_attempts (stats_step e st) = st_total_attempts st"
  by (simp add: stats_step_def Let_def)

lemma st_total_attempts_fold [simp]:
  "st_total_attempts (fold stats_step es st) = st_total_attempts st"
  by (induction es arbitrary: st) simp_all

lemma ip_stats_total: "st_total_attempts (ip_stats events ip) = length (recent_events events ip)"
  by (simp add: ip_stats_def Let_def initial_stats_def)

lemma garbled_recent:
  "recent_events (dated_events @ [garbled_event]) ''5.39.1.1'' = dated_events @ [garbled_event]"
  "recent_events dated_events ''5.39.1.1'' = dated_events"
  by (simp_all add: recent_events_def last_n_def dated_events_def garbled_event_def mk_event_def)

lemma garbled_times:
  "ip_times sample_strptime sample_now (dated_events @ [garbled_event]) ''5.39.1.1''
     = [36000, 36180, sample_now 2]"
  "ip_times sample_strptime sample_now dated_events ''5.39.1.1'' = [36000, 36180]"
  unfolding ip_times_eq garbled_recent
  by (simp_all add: dated_events_def garbled_event_def mk_event_def get_or_empty_def
      parse_datetime_def sample_strptime_def sample_now_def)

text \<open>
  C3 at a concrete input. The third event has a date and a time that parse with neither
  format. It is counted in the attempts, and it also contributes a timestamp, the clock
  reading 12:00:00.25 taken while it is processed: the timestamps of the IP are three,
  the span becomes two hours and persistence becomes 15, where the two parsed events
  alone span three minutes and give persistence 0.
\<close>

theorem unparsable_event_gets_clock_time:
  "parse_datetime sample_strptime (sample_now 2) ''01/01/2024'' ''10h06'' = sample_now 2 \<and>
   st_total_attempts (ip_stats (dated_events @ [garbled_event]) ''5.39.1.1'') = 3 \<and>
   ip_times sample_strptime sample_now (dated_events @ [garbled_event]) ''5.39.1.1''
     = [36000, 36180, sample_now 2] \<and>
   persistence (fst (snd (calculate_threat_score_ip sample_fmean sample_strptime sample_now
       (dated_events @ [garbled_event]) ''5.39.1.1''))) = 15 \<and>
   fst (calculate_threat_score_ip sample_fmean sample_strptime sample_now
       (dated_events @ [garbled_event]) ''5.39.1.1'') = 15 \<and>
   ip_times sample_strptime sample_now dated_events ''5.39.1.1'' = [36000, 36180] \<and>
   persistence (fst (snd (calculate_threat_score_ip sample_fmean sample_strptime sample_now
       dated_events ''5.39.1.1''))) = 0"
proof -
  let ?ev = "dated_events @ [garbled_event]"
  have p: "parse_datetime sample_strptime (sample_now 2) ''01/01/2024'' ''10h06'' = sample_now 2"
    by (rule parse_datetime_fallback) (simp_all add: sample_strptime_def)
  have n: "st_total_attempts (ip_stats ?ev ''5.39.1.1'') = 3"
    unfolding ip_stats_total garbled_recent by (simp add: dated_events_def)
  have ne: "filter (\<lambda>e. e_ip e = Some ''5.39.1.1'') ?ev \<noteq> []"
    and ne2: "filter (\<lambda>e. e_ip e = Some ''5.39.1.1'') dated_events \<noteq> []"
    by (simp_all add: dated_events_def garbled_event_def mk_event_def)
  have pers: "persistence (fst (snd (calculate_threat_score_ip sample_fmean sample_strptime sample_now
       ?ev ''5.39.1.1''))) = 15"
    unfolding calculate_components(6)[OF ne] garbled_times
    by (simp add: persistence_score_def PERSISTENCE_MINUTES_def SCORING_WEIGHTS_def sample_now_def)
  have pers2: "persistence (fst (snd (calculate_threat_score_ip sample_fmean sample_strptime sample_now
       dated_events ''5.39.1.1''))) = 0"
    unfolding calculate_components(6)[OF ne2] garbled_times
    by (simp add: persistence_score_def PERSISTENCE_MINUTES_def SCORING_WEIGHTS_def)
  have st: "st_failed_attempts (ip_stats ?ev ''5.39.1.1'') = 0"
    "st_unique_users (ip_stats ?ev ''5.39.1.1'') = [''sara'']"
    "st_countries (ip_stats ?ev ''5.39.1.1'') = [''FR'']"
    "st_user_agents (ip_stats ?ev ''5.39.1.1'') = [''Mozilla/5.0'']"
    "st_targeted_hvt (ip_stats ?ev ''5.39.1.1'') = []"
    unfolding ip_stats_def garbled_recent Let_def
    by (simp_all add: dated_events_def garbled_event_def stats_step_quiet initial_stats_def
        set_add_def HIGH_VALUE_TARGETS_def)
  have others: "failed_attempts (fst (snd (calculate_threat_score_ip sample_fmean sample_strptime sample_now
       ?ev ''5.39.1.1''))) = 0"
    "attack_speed (fst (snd (calculate_threat_score_ip sample_fmean sample_strptime sample_now
       ?ev ''5.39.1.1''))) = 0"
    "tool_detection (fst (snd (calculate_threat_score_ip sample_fmean sample_strptime sample_now
       ?ev ''5.39.1.1''))) = 0"
    "geographic_risk (fst (snd (calculate_threat_score_ip sample_fmean sample_strptime sample_now
       ?ev ''5.39.1.1''))) = 0"
    "user_spread (fst (snd (calculate_threat_score_ip sample_fmean sample_strptime sample_now
       ?ev ''5.39.1.1''))) = 0"
    unfolding calculate_components[OF ne] garbled_times st
    by (simp_all add: failed_attempts_score_def BRUTE_FORCE_FAIL_THRESHOLD_def
        attack_speed_score_def trimmed_diffs_def speed_tier_def double_0_6_def SCORING_WEIGHTS_def
        sample_fmean_def
        sample_now_def mozilla_not_suspicious HIGH_RISK_COUNTRIES_def MEDIUM_RISK_COUNTRIES_def
        user_spread_score_def USER_SPREAD_THRESHOLD_def)
  have total: "fst (calculate_threat_score_ip sample_fmean sample_strptime sample_now ?ev ''5.39.1.1'') = 15"
    unfolding calculate_components(7)[OF ne] components_sum_def others pers
    by (simp add: py_round2_def)
  show ?thesis
    using p n garbled_times pers total pers2 by simp
qed

lemma calculate_score_without_stats:
  "snd (snd (calculate_threat_score_ip fm sp now events ip)) = None \<Longrightarrow>
   fst (calculate_threat_score_ip fm sp now events ip) = 0"
proof (cases "filter (\<lambda>e. e_ip e = Some ip) events = []")
  case True
  then show ?thesis by (simp add: calculate_no_events)
next
  case False
  assume "snd (snd (calculate_threat_score_ip fm sp now events ip)) = None"
  then show ?thesis using calculate_stats[OF False, of fm sp now] by simp
qed

lemma detect_loop_step:
  "detect_loop fm sp isof now_ev now_s events (p # rest) acc
     = detect_loop fm sp isof now_ev now_s events rest (ip_step fm sp isof now_ev now_s events p acc)"
proof -
  obtain ip g where p: "p = (ip, g)" by (cases p)
  obtain alerts scores al st where acc: "acc = (alerts, scores, al, st)" by (cases acc)
  let ?r = "calculate_threat_score_ip fm sp (now_ev ip) events ip"
  show ?thesis
  proof (cases "qualifies fm sp now_ev events p")
    case False
    then have "length g < 3 \<or> fst ?r < 31"
      using p by (auto simp: qualifies_def)
    then have "detect_loop fm sp isof now_ev now_s events (p # rest) acc
        = detect_loop fm sp isof now_ev now_s events rest acc"
      unfolding p using detect_loop_few detect_loop_low by metis
    then show ?thesis using False by (simp add: ip_step_def Let_def)
  next
    case True
    then have len: "\<not> length g < 3" and sc: "31 \<le> fst ?r"
      using p by (auto simp: qualifies_def)
    have "snd (snd ?r) \<noteq> None"
      using calculate_score_without_stats[of fm sp "now_ev ip" events ip] sc by auto
    then obtain stats where stats: "snd (snd ?r) = Some stats" by auto
    obtain score comps where r: "?r = (score, comps, Some stats)"
      using stats by (cases ?r) auto
    show ?thesis
    proof (cases "Some ip \<in> al")
      case in_al: True
      then have ins: "insert (Some ip) al = al" by auto
      show ?thesis
        using True len sc r in_al ins unfolding p acc
        by (simp add: ip_step_def Let_def score_entry_def)
    next
      case not_al: False
      show ?thesis
        using True len sc r not_al unfolding p acc
        by (simp add: ip_step_def Let_def score_entry_def new_alert_of_def)
    qed
  qed
qed

lemma detect_loop_fold:
  "detect_loop fm sp isof now_ev now_s events groups acc
     = Inr (fold (ip_step fm sp isof now_ev now_s events) groups acc)"
proof (induction groups arbitrary: acc)
  case Nil
  show ?case by (cases acc) simp
next
  case (Cons p groups)
  show ?case unfolding detect_loop_step Cons.IH by simp
qed

lemma ip_step_skip:
  "\<not> qualifies fm sp now_ev events p \<Longrightarrow> ip_step fm sp isof now_ev now_s events p acc = acc"
  by (simp add: ip_step_def Let_def)

lemma ip_step_qualifies:
  assumes "qualifies fm sp now_ev events p"
  shows "\<exists>stats. snd (snd (calculate_threat_score_ip fm sp (now_ev (fst p)) events (fst p))) = Some stats \<and>
    ip_step fm sp isof now_ev now_s events p acc =
      (if Some (fst p) \<in> fst (snd (snd acc)) then fst acc
       else fst acc @ [new_alert_of (fst p) (snd p)
              (fst (calculate_threat_score_ip fm sp (now_ev (fst p)) events (fst p))) stats],
       AList.update (''IP:'' @ fst p)
         (score_entry (fst p) (calculate_threat_score_ip fm sp (now_ev (fst p)) events (fst p)))
         (fst (snd acc)),
       insert (Some (fst p)) (fst (snd (snd acc))),
       apply_sanction isof (now_s (fst p)) ''IP'' (fst p)
         (fst (calculate_threat_score_ip fm sp (now_ev (fst p)) events (fst p)))
         (get_severity_level (fst (calculate_threat_score_ip fm sp (now_ev (fst p)) events (fst p))))
         (fst (snd (calculate_threat_score_ip fm sp (now_ev (fst p)) events (fst p))))
         (snd (snd (snd acc))))"
proof -
  let ?r = "calculate_threat_score_ip fm sp (now_ev (fst p)) events (fst p)"
  have "31 \<le> fst ?r" using assms by (simp add: qualifies_def)
  then have "snd (snd ?r) \<noteq> None"
    using calculate_score_without_stats[of fm sp "now_ev (fst p)" events "fst p"] by auto
  then obtain stats where "snd (snd ?r) = Some stats" by auto
  then show ?thesis using assms by (simp add: ip_step_def Let_def)
qed

lemma apply_sanction_frame:
  "k \<noteq> et @ '':'' @ v \<Longrightarrow>
   map_of (sanctions_file (apply_sanction isof now et v score sev comps st)) k
     = map_of (sanctions_file st) k"
  by (simp add: apply_sanction_def Let_def update_conv' split: option.splits)

lemma severity_has_policy:
  "31 \<le> score \<Longrightarrow> map_of SANCTIONS (get_severity_level score) \<noteq> None"
  by (simp add: get_severity_level_def SANCTIONS_def)

lemma apply_sanction_writes:
  assumes "31 \<le> score"
  shows "\<exists>s. map_of (sanctions_file
                 (apply_sanction isof now et v score (get_severity_level score) comps st))
               (et @ '':'' @ v) = Some s \<and>
             s_score s = score \<and> s_severity s = Some (get_severity_level score) \<and>
             s_active s \<and> s_entity_value s = v \<and> s_components s = comps \<and>
             s_created_at s = isof now"
proof -
  obtain cfg where "map_of SANCTIONS (get_severity_level score) = Some cfg"
    using severity_has_policy[OF assms] by auto
  then show ?thesis
    by (simp add: apply_sanction_def Let_def update_conv')
qed

lemma apply_sanction_other_files:
  "alerts_file (apply_sanction isof now et v score sev comps st) = alerts_file st"
  "scores_file (apply_sanction isof now et v score sev comps st) = scores_file st"
  by (simp_all add: apply_sanction_def Let_def split: option.splits)

lemma fold_ip_step_frame:
  assumes "ip \<notin> fst ` set groups"
  shows "map_of (fst (snd (fold (ip_step fm sp isof now_ev now_s events) groups acc))) (''IP:'' @ ip)
           = map_of (fst (snd acc)) (''IP:'' @ ip) \<and>
         map_of (sanctions_file (snd (snd (snd (fold (ip_step fm sp isof now_ev now_s events) groups acc)))))
             (''IP:'' @ ip)
           = map_of (sanctions_file (snd (snd (snd acc)))) (''IP:'' @ ip)"
  using assms
proof (induction groups arbitrary: acc)
  case Nil
  then show ?case by simp
next
  case (Cons p groups)
  have ne: "fst p \<noteq> ip" and rest: "ip \<notin> fst ` set groups" using Cons.prems by auto
  let ?a = "ip_step fm sp isof now_ev now_s events p acc"
  have k: "''IP:'' @ ip \<noteq> ''IP'' @ '':'' @ fst p" using ne by simp
  have one: "map_of (fst (snd ?a)) (''IP:'' @ ip) = map_of (fst (snd acc)) (''IP:'' @ ip) \<and>
      map_of (sanctions_file (snd (snd (snd ?a)))) (''IP:'' @ ip)
        = map_of (sanctions_file (snd (snd (snd acc)))) (''IP:'' @ ip)"
  proof (cases "qualifies fm sp now_ev events p")
    case False
    then show ?thesis by (simp add: ip_step_skip)
  next
    case True
    from ip_step_qualifies[OF True, of isof now_s acc] obtain stats where
      "ip_step fm sp isof now_ev now_s events p acc =
        (if Some (fst p) \<in> fst (snd (snd acc)) then fst acc
         else fst acc @ [new_alert_of (fst p) (snd p)
                (fst (calculate_threat_score_ip fm sp (now_ev (fst p)) events (fst p))) stats],
         AList.update (''IP:'' @ fst p)
           (score_entry (fst p) (calculate_threat_score_ip fm sp (now_ev (fst p)) events (fst p)))
           (fst (snd acc)),
         insert (Some (fst p)) (fst (snd (snd acc))),
         apply_sanction isof (now_s (fst p)) ''IP'' (fst p)
           (fst (calculate_threat_score_ip fm sp (now_ev (fst p)) events (fst p)))
           (get_severity_level (fst (calculate_threat_score_ip fm sp (now_ev (fst p)) events (fst p))))
           (fst (snd (calculate_threat_score_ip fm sp (now_ev (fst p)) events (fst p))))
           (snd (snd (snd acc))))"
      by blast
    then show ?thesis
      using ne apply_sanction_frame[OF k] by (simp add: update_conv')
  qed
  show ?case
    using Cons.IH[OF rest, of ?a] one by simp
qed

lemma fold_ip_step_entries:
  assumes "distinct (map fst groups)" and "p \<in> set groups" and "qualifies fm sp now_ev events p"
  shows "map_of (fst (snd (fold (ip_step fm sp isof now_ev now_s events) groups acc))) (''IP:'' @ fst p)
           = Some (score_entry (fst p) (calculate_threat_score_ip fm sp (now_ev (fst p)) events (fst p))) \<and>
         (\<exists>s. map_of (sanctions_file
                  (snd (snd (snd (fold (ip_step fm sp isof now_ev now_s events) groups acc)))))
                (''IP:'' @ fst p) = Some s \<and>
              s_score s = fst (calculate_threat_score_ip fm sp (now_ev (fst p)) events (fst p)) \<and>
              s_severity s = Some (get_severity_level
                (fst (calculate_threat_score_ip fm sp (now_ev (fst p)) events (fst p)))) \<and>
              s_active s)"
  using assms(1,2)
proof (induction groups arbitrary: acc)
  case Nil
  then show ?case by simp
next
  case (Cons q groups)
  let ?a = "ip_step fm sp isof now_ev now_s events q acc"
  let ?r = "calculate_threat_score_ip fm sp (now_ev (fst p)) events (fst p)"
  show ?case
  proof (cases "p \<in> set groups")
    case True
    then show ?thesis using Cons.IH[of ?a] Cons.prems by simp
  next
    case False
    then have q: "q = p" using Cons.prems by simp
    have notin: "fst p \<notin> fst ` set groups" using Cons.prems q by auto
    have sc: "31 \<le> fst ?r" using assms(3) by (simp add: qualifies_def)
    from ip_step_qualifies[OF assms(3), of isof now_s acc] obtain stats where
      a: "ip_step fm sp isof now_ev now_s events p acc =
        (if Some (fst p) \<in> fst (snd (snd acc)) then fst acc
         else fst acc @ [new_alert_of (fst p) (snd p) (fst ?r) stats],
         AList.update (''IP:'' @ fst p) (score_entry (fst p) ?r) (fst (snd acc)),
         insert (Some (fst p)) (fst (snd (snd acc))),
         apply_sanction isof (now_s (fst p)) ''IP'' (fst p) (fst ?r)
           (get_severity_level (fst ?r)) (fst (snd ?r)) (snd (snd (snd acc))))"
      by blast
    have e1: "map_of (fst (snd ?a)) (''IP:'' @ fst p) = Some (score_entry (fst p) ?r)"
      unfolding q a by (simp add: update_conv')
    obtain s where s: "map_of (sanctions_file (snd (snd (snd ?a)))) (''IP:'' @ fst p) = Some s"
      "s_score s = fst ?r" "s_severity s = Some (get_severity_level (fst ?r))" "s_active s"
      unfolding q a
      using apply_sanction_writes[OF sc, of isof "now_s (fst p)" "''IP''" "fst p"
          "fst (snd ?r)" "snd (snd (snd acc))"]
      by auto
    show ?thesis
      using fold_ip_step_frame[OF notin, of fm sp isof now_ev now_s events ?a] e1 s by simp
  qed
qed

lemma new_alert_of_fields [simp]:
  "a_type (new_alert_of ip g score stats) = Some ''Threat Detection''"
  "a_ip (new_alert_of ip g score stats) = Some ip"
  by (simp_all add: new_alert_of_def)

lemma fold_ip_step_alerts:
  assumes "distinct (map fst groups)"
  shows "\<exists>new. fst (fold (ip_step fm sp isof now_ev now_s events) groups acc) = fst acc @ new \<and>
           distinct (map a_ip new) \<and>
           set (map a_ip new)
             = Some ` fst ` {p \<in> set groups. qualifies fm sp now_ev events p} - fst (snd (snd acc)) \<and>
           (\<forall>a \<in> set new. a_type a = Some ''Threat Detection'')"
  using assms
proof (induction groups arbitrary: acc)
  case Nil
  then show ?case by simp
next
  case (Cons p groups)
  let ?a = "ip_step fm sp isof now_ev now_s events p acc"
  let ?Q = "\<lambda>gs. Some ` fst ` {q \<in> set gs. qualifies fm sp now_ev events q}"
  have d: "distinct (map fst groups)" and notin: "fst p \<notin> fst ` set groups"
    using Cons.prems by auto
  have fresh: "Some (fst p) \<notin> ?Q groups" using notin by auto
  from Cons.IH[OF d, of ?a] obtain new2 where
    n2: "fst (fold (ip_step fm sp isof now_ev now_s events) groups ?a) = fst ?a @ new2"
      "distinct (map a_ip new2)"
      "set (map a_ip new2) = ?Q groups - fst (snd (snd ?a))"
      "\<forall>a \<in> set new2. a_type a = Some ''Threat Detection''"
    by blast
  show ?case
  proof (cases "qualifies fm sp now_ev events p")
    case False
    then have a: "?a = acc" by (simp add: ip_step_skip)
    have "?Q (p # groups) = ?Q groups" using False by auto
    then show ?thesis using n2 a by auto
  next
    case True
    have Q: "?Q (p # groups) = insert (Some (fst p)) (?Q groups)" using True by auto
    from ip_step_qualifies[OF True, of isof now_s acc] obtain stats where
      a1: "fst ?a = (if Some (fst p) \<in> fst (snd (snd acc)) then fst acc
             else fst acc @ [new_alert_of (fst p) (snd p)
               (fst (calculate_threat_score_ip fm sp (now_ev (fst p)) events (fst p))) stats])"
      and a3: "fst (snd (snd ?a)) = insert (Some (fst p)) (fst (snd (snd acc)))"
      by auto
    show ?thesis
    proof (cases "Some (fst p) \<in> fst (snd (snd acc))")
      case in_al: True
      then have "fst ?a = fst acc" and "fst (snd (snd ?a)) = fst (snd (snd acc))"
        using a1 a3 by auto
      then show ?thesis using n2 Q in_al by auto
    next
      case not_al: False
      let ?al = "new_alert_of (fst p) (snd p)
               (fst (calculate_threat_score_ip fm sp (now_ev (fst p)) events (fst p))) stats"
      have f: "fst (fold (ip_step fm sp isof now_ev now_s events) (p # groups) acc)
          = fst acc @ (?al # new2)"
        using n2(1) a1 not_al by simp
      have nin: "Some (fst p) \<notin> set (map a_ip new2)"
        using n2(3) fresh by auto
      have dist: "distinct (map a_ip (?al # new2))"
        using n2(2) nin by simp
      have st: "set (map a_ip (?al # new2)) = ?Q (p # groups) - fst (snd (snd acc))"
        unfolding Q using n2(3) a3 not_al fresh by auto
      have ty: "\<forall>a \<in> set (?al # new2). a_type a = Some ''Threat Detection''"
        using n2(4) by simp
      show ?thesis using f dist st ty by blast
    qed
  qed
qed

lemma group_by_ip_distinct:
  "distinct (map fst g) \<Longrightarrow> distinct (map fst (group_by_ip es g))"
  by (induction es arbitrary: g) (simp_all add: Let_def distinct_update)

lemma group_by_ip_map_of:
  "map_of (group_by_ip es g) ip =
     (if ip \<noteq> [] \<and> ip \<notin> set LOCAL_IPS \<and> filter (\<lambda>e. e_ip e = Some ip) es \<noteq> []
      then Some ((case map_of g ip of None \<Rightarrow> [] | Some x \<Rightarrow> x) @ filter (\<lambda>e. e_ip e = Some ip) es)
      else map_of g ip)"
proof (induction es arbitrary: g)
  case Nil
  then show ?case by simp
next
  case (Cons e es)
  show ?case
  proof (cases "truthy (e_ip e) \<and> get_or_empty (e_ip e) \<notin> set LOCAL_IPS")
    case False
    then have "group_by_ip (e # es) g = group_by_ip es g" by auto
    moreover have "ip \<noteq> [] \<and> ip \<notin> set LOCAL_IPS \<Longrightarrow> e_ip e \<noteq> Some ip"
      using False by (auto simp: truthy_def get_or_empty_def)
    ultimately show ?thesis using Cons.IH[of g] by auto
  next
    case True
    then obtain x where x: "e_ip e = Some x" "x \<noteq> []" "x \<notin> set LOCAL_IPS"
      by (auto simp: truthy_def get_or_empty_def split: option.splits)
    let ?g = "AList.update x ((case map_of g x of None \<Rightarrow> [] | Some y \<Rightarrow> y) @ [e]) g"
    have step: "group_by_ip (e # es) g = group_by_ip es ?g"
      using x by (simp add: truthy_def get_or_empty_def Let_def)
    show ?thesis
      unfolding step Cons.IH[of ?g] using x by (auto simp: update_conv')
  qed
qed

lemma group_by_ip_member:
  assumes "ip \<noteq> []" and "ip \<notin> set LOCAL_IPS"
    and "filter (\<lambda>e. e_ip e = Some ip) es \<noteq> []"
  shows "(ip, filter (\<lambda>e. e_ip e = Some ip) es) \<in> set (group_by_ip es [])"
proof -
  have "map_of (group_by_ip es []) ip = Some (filter (\<lambda>e. e_ip e = Some ip) es)"
    using assms by (simp add: group_by_ip_map_of)
  then show ?thesis by (rule map_of_SomeD)
qed


lemma detect_threats_by_ip_fold:
  "detect_threats_by_ip fm sp isof now_ev now_s events st =
     (let f = fold (ip_step fm sp isof now_ev now_s events) (group_by_ip (last_n 1000 events) [])
                (alerts_file st, scores_file st, alerted_ips_of (alerts_file st), st)
      in Inr ((snd (snd (snd f)))\<lparr>alerts_file := fst f, scores_file := fst (snd f),
                saved := saved (snd (snd (snd f))) @ [ALERT_FILE, SCORES_FILE]\<rparr>))"
  by (simp add: detect_threats_by_ip_def Let_def detect_loop_fold split_def)


lemma detect_cycle_effects:
  "\<exists>st' new.
     detect_threats_by_ip fm sp isof now_ev now_s events st = Inr st' \<and>
     alerts_file st' = alerts_file st @ new \<and>
     distinct (map a_ip new) \<and>
     (\<forall>a \<in> set new. a_type a = Some ''Threat Detection'' \<and>
        a_ip a \<notin> alerted_ips_of (alerts_file st)) \<and>
     (\<forall>ip. ip \<noteq> [] \<and> ip \<notin> set LOCAL_IPS \<and>
        3 \<le> length (filter (\<lambda>e. e_ip e = Some ip) (last_n 1000 events)) \<and>
        31 \<le> fst (calculate_threat_score_ip fm sp (now_ev ip) events ip) \<longrightarrow>
          map_of (scores_file st') (''IP:'' @ ip)
            = Some (score_entry ip (calculate_threat_score_ip fm sp (now_ev ip) events ip)) \<and>
          (\<exists>s. map_of (sanctions_file st') (''IP:'' @ ip) = Some s \<and>
             s_score s = fst (calculate_threat_score_ip fm sp (now_ev ip) events ip) \<and>
             s_severity s = Some (get_severity_level
               (fst (calculate_threat_score_ip fm sp (now_ev ip) events ip))) \<and>
             s_active s) \<and>
          (Some ip \<in> set (map a_ip new) \<longleftrightarrow> Some ip \<notin> alerted_ips_of (alerts_file st))) \<and>
     (distinct (map a_ip (filter (\<lambda>a. a_type a = Some ''Threat Detection'') (alerts_file st))) \<longrightarrow>
      distinct (map a_ip (filter (\<lambda>a. a_type a = Some ''Threat Detection'') (alerts_file st'))))"
proof -
  let ?groups = "group_by_ip (last_n 1000 events) []"
  let ?acc = "(alerts_file st, scores_file st, alerted_ips_of (alerts_file st), st)"
  let ?f = "fold (ip_step fm sp isof now_ev now_s events) ?groups ?acc"
  let ?st' = "(snd (snd (snd ?f)))\<lparr>alerts_file := fst ?f, scores_file := fst (snd ?f),
                saved := saved (snd (snd (snd ?f))) @ [ALERT_FILE, SCORES_FILE]\<rparr>"
  let ?td = "\<lambda>a. a_type a = Some ''Threat Detection''"
  have run: "detect_threats_by_ip fm sp isof now_ev now_s events st = Inr ?st'"
    by (simp add: detect_threats_by_ip_fold Let_def)
  have d: "distinct (map fst ?groups)" by (rule group_by_ip_distinct) simp
  have "\<exists>new. fst ?f = alerts_file st @ new \<and> distinct (map a_ip new) \<and>
      set (map a_ip new) = Some ` fst ` {p \<in> set ?groups. qualifies fm sp now_ev events p}
         - alerted_ips_of (alerts_file st) \<and>
      (\<forall>a \<in> set new. ?td a)"
    using fold_ip_step_alerts[OF d, of fm sp isof now_ev now_s events ?acc] by simp
  then obtain new where
    new: "fst ?f = alerts_file st @ new" "distinct (map a_ip new)"
      "set (map a_ip new) = Some ` fst ` {p \<in> set ?groups. qualifies fm sp now_ev events p}
         - alerted_ips_of (alerts_file st)"
      "\<forall>a \<in> set new. ?td a"
    by blast
  have al: "alerts_file ?st' = alerts_file st @ new" using new(1) by simp
  have "a_ip a \<notin> alerted_ips_of (alerts_file st)" if "a \<in> set new" for a
  proof -
    have "a_ip a \<in> set (map a_ip new)" using that by simp
    then show ?thesis unfolding new(3) by blast
  qed
  then have fresh: "\<forall>a \<in> set new. ?td a \<and> a_ip a \<notin> alerted_ips_of (alerts_file st)"
    using new(4) by blast
  have per_ip: "map_of (scores_file ?st') (''IP:'' @ ip)
            = Some (score_entry ip (calculate_threat_score_ip fm sp (now_ev ip) events ip)) \<and>
          (\<exists>s. map_of (sanctions_file ?st') (''IP:'' @ ip) = Some s \<and>
             s_score s = fst (calculate_threat_score_ip fm sp (now_ev ip) events ip) \<and>
             s_severity s = Some (get_severity_level
               (fst (calculate_threat_score_ip fm sp (now_ev ip) events ip))) \<and>
             s_active s) \<and>
          (Some ip \<in> set (map a_ip new) \<longleftrightarrow> Some ip \<notin> alerted_ips_of (alerts_file st))"
    if c: "ip \<noteq> [] \<and> ip \<notin> set LOCAL_IPS \<and>
        3 \<le> length (filter (\<lambda>e. e_ip e = Some ip) (last_n 1000 events)) \<and>
        31 \<le> fst (calculate_threat_score_ip fm sp (now_ev ip) events ip)" for ip
  proof -
    let ?p = "(ip, filter (\<lambda>e. e_ip e = Some ip) (last_n 1000 events))"
    have ne: "filter (\<lambda>e. e_ip e = Some ip) (last_n 1000 events) \<noteq> []" using c by auto
    have mem: "?p \<in> set ?groups" using c ne by (simp add: group_by_ip_member)
    have q: "qualifies fm sp now_ev events ?p" using c by (simp add: qualifies_def)
    have "?p \<in> {p \<in> set ?groups. qualifies fm sp now_ev events p}"
      using mem q by (intro CollectI conjI)
    then have "fst ?p \<in> fst ` {p \<in> set ?groups. qualifies fm sp now_ev events p}"
      by (rule imageI)
    then have "Some (fst ?p) \<in> Some ` fst ` {p \<in> set ?groups. qualifies fm sp now_ev events p}"
      by (rule imageI)
    then have inQ: "Some ip \<in> Some ` fst ` {p \<in> set ?groups. qualifies fm sp now_ev events p}"
      by (simp only: fst_conv)
    have ent: "map_of (fst (snd ?f)) (''IP:'' @ ip)
           = Some (score_entry ip (calculate_threat_score_ip fm sp (now_ev ip) events ip)) \<and>
         (\<exists>s. map_of (sanctions_file (snd (snd (snd ?f)))) (''IP:'' @ ip) = Some s \<and>
              s_score s = fst (calculate_threat_score_ip fm sp (now_ev ip) events ip) \<and>
              s_severity s = Some (get_severity_level
                (fst (calculate_threat_score_ip fm sp (now_ev ip) events ip))) \<and>
              s_active s)"
      using fold_ip_step_entries[OF d mem q, of isof now_s ?acc] by simp
    have sel: "scores_file ?st' = fst (snd ?f)" "sanctions_file ?st' = sanctions_file (snd (snd (snd ?f)))"
      by simp_all
    have iff: "Some ip \<in> set (map a_ip new) \<longleftrightarrow> Some ip \<notin> alerted_ips_of (alerts_file st)"
      unfolding new(3) using inQ by blast
    show ?thesis unfolding sel using ent iff by (intro conjI) blast+
  qed
  have keep: "distinct (map a_ip (filter ?td (alerts_file ?st')))"
    if "distinct (map a_ip (filter ?td (alerts_file st)))"
  proof -
    have fn: "filter ?td new = new" using new(4) by (simp add: filter_id_conv)
    have dj: "set (map a_ip (filter ?td (alerts_file st))) \<inter> set (map a_ip new) = {}"
      unfolding new(3) alerted_ips_of_def by blast
    show ?thesis unfolding al using that new(2) fn dj by simp
  qed
  have per_ip': "\<forall>ip. ip \<noteq> [] \<and> ip \<notin> set LOCAL_IPS \<and>
        3 \<le> length (filter (\<lambda>e. e_ip e = Some ip) (last_n 1000 events)) \<and>
        31 \<le> fst (calculate_threat_score_ip fm sp (now_ev ip) events ip) \<longrightarrow>
          map_of (scores_file ?st') (''IP:'' @ ip)
            = Some (score_entry ip (calculate_threat_score_ip fm sp (now_ev ip) events ip)) \<and>
          (\<exists>s. map_of (sanctions_file ?st') (''IP:'' @ ip) = Some s \<and>
             s_score s = fst (calculate_threat_score_ip fm sp (now_ev ip) events ip) \<and>
             s_severity s = Some (get_severity_level
               (fst (calculate_threat_score_ip fm sp (now_ev ip) events ip))) \<and>
             s_active s) \<and>
          (Some ip \<in> set (map a_ip new) \<longleftrightarrow> Some ip \<notin> alerted_ips_of (alerts_file st))"
    using per_ip by (intro allI impI)
  have keep': "distinct (map a_ip (filter ?td (alerts_file st))) \<longrightarrow>
      distinct (map a_ip (filter ?td (alerts_file ?st')))"
    using keep by (intro impI)
  show ?thesis
    by (rule exI[where x = ?st'], rule exI[where x = new])
       (intro conjI run al new(2) fresh per_ip' keep')
qed

lemma probe_recent: "recent_events probe_events ''45.12.1.1'' = probe_events"
  by (simp add: recent_events_def last_n_def probe_events_def probe_event_def)

lemma probe_stats:
  "st_failed_attempts (ip_stats probe_events ''45.12.1.1'') = 3"
  "st_unique_users (ip_stats probe_events ''45.12.1.1'') = [''admin'']"
  "st_countries (ip_stats probe_events ''45.12.1.1'') = [''RU'']"
  "st_user_agents (ip_stats probe_events ''45.12.1.1'') = [''sqlmap/1.7'']"
  "st_targeted_hvt (ip_stats probe_events ''45.12.1.1'') = [''admin'']"
  unfolding ip_stats_def probe_recent Let_def
  by (simp_all add: probe_events_def probe_event_def initial_stats_def stats_step_def truthy_def
      get_or_empty_def set_add_def HIGH_VALUE_TARGETS_def Let_def)

lemma probe_times:
  "ip_times sample_strptime sample_now probe_events ''45.12.1.1''
     = [sample_now 0, sample_now 1, sample_now 2]"
  unfolding ip_times_eq probe_recent
  by (simp add: probe_events_def probe_event_def get_or_empty_def parse_datetime_def
      sample_strptime_def sample_now_def)

lemma sqlmap_suspicious: "is_suspicious ''sqlmap/1.7''"
  by (simp add: is_suspicious_def lower_def lower_char_def SUSPICIOUS_USER_AGENTS_def sublist_code)

lemma probe_score:
  "fst (calculate_threat_score_ip sample_fmean sample_strptime sample_now probe_events ''45.12.1.1'') = 50"
proof -
  have ne: "filter (\<lambda>e. e_ip e = Some ''45.12.1.1'') probe_events \<noteq> []"
    by (simp add: probe_events_def probe_event_def)
  note cc = calculate_components[OF ne, of sample_fmean sample_strptime sample_now]
  have c: "failed_attempts (fst (snd (calculate_threat_score_ip sample_fmean sample_strptime sample_now
         probe_events ''45.12.1.1''))) = 0"
    "attack_speed (fst (snd (calculate_threat_score_ip sample_fmean sample_strptime sample_now
         probe_events ''45.12.1.1''))) = 20"
    "tool_detection (fst (snd (calculate_threat_score_ip sample_fmean sample_strptime sample_now
         probe_events ''45.12.1.1''))) = 15"
    "geographic_risk (fst (snd (calculate_threat_score_ip sample_fmean sample_strptime sample_now
         probe_events ''45.12.1.1''))) = 10"
    "user_spread (fst (snd (calculate_threat_score_ip sample_fmean sample_strptime sample_now
         probe_events ''45.12.1.1''))) = 5"
    "persistence (fst (snd (calculate_threat_score_ip sample_fmean sample_strptime sample_now
         probe_events ''45.12.1.1''))) = 0"
    unfolding cc probe_times probe_stats
    by (simp_all add: failed_attempts_score_def BRUTE_FORCE_FAIL_THRESHOLD_def
        attack_speed_score_def trimmed_diffs_def speed_tier_def double_0_6_def SCORING_WEIGHTS_def
        sample_fmean_def
        sample_now_def sqlmap_suspicious HIGH_RISK_COUNTRIES_def
        user_spread_score_def USER_SPREAD_THRESHOLD_def persistence_score_def
        PERSISTENCE_MINUTES_def)
  show ?thesis
    unfolding cc(7) components_sum_def c by (simp add: py_round2_def)
qed

text \<open>
  C7. A detection cycle, from any stored alerts, scores and sanctions, ends without an
  error and only appends alerts: the appended alerts are of type Threat Detection and
  are for pairwise different IPs, none of which had a Threat Detection alert before.
  An IP that is not local, has at least 3 events in the trailing 1000 events and scores
  at least 31 gets its ThreatScore and its sanction written, and gets an alert in this
  cycle exactly when it had none before. So a collection with at most one Threat
  Detection alert per IP keeps that property.
\<close>

theorem detect_threats_alerts_each_ip_once:
  "\<exists>st' new.
     detect_threats_by_ip fmean strptime isoformat now_ev now_s events st = Inr st' \<and>
     alerts_file st' = alerts_file st @ new \<and>
     distinct (map a_ip new) \<and>
     (\<forall>a \<in> set new. a_type a = Some ''Threat Detection'' \<and>
        a_ip a \<notin> alerted_ips_of (alerts_file st)) \<and>
     (\<forall>ip. ip \<noteq> [] \<and> ip \<notin> set LOCAL_IPS \<and>
        3 \<le> length (filter (\<lambda>e. e_ip e = Some ip) (last_n 1000 events)) \<and>
        31 \<le> fst (calculate_threat_score_ip fmean strptime (now_ev ip) events ip) \<longrightarrow>
          map_of (scores_file st') (''IP:'' @ ip)
            = Some (score_entry ip (calculate_threat_score_ip fmean strptime (now_ev ip) events ip)) \<and>
          (\<exists>s. map_of (sanctions_file st') (''IP:'' @ ip) = Some s \<and>
             s_score s = fst (calculate_threat_score_ip fmean strptime (now_ev ip) events ip) \<and>
             s_severity s = Some (get_severity_level
               (fst (calculate_threat_score_ip fmean strptime (now_ev ip) events ip))) \<and>
             s_active s) \<and>
          (Some ip \<in> set (map a_ip new) \<longleftrightarrow> Some ip \<notin> alerted_ips_of (alerts_file st))) \<and>
     (distinct (map a_ip (filter (\<lambda>a. a_type a = Some ''Threat Detection'') (alerts_file st))) \<longrightarrow>
      distinct (map a_ip (filter (\<lambda>a. a_type a = Some ''Threat Detection'') (alerts_file st'))))"
  by (rule detect_cycle_effects)

theorem detect_threats_alerts_each_ip_once_witness:
  "''45.12.1.1'' \<noteq> [] \<and> ''45.12.1.1'' \<notin> set LOCAL_IPS \<and>
   3 \<le> length (filter (\<lambda>e. e_ip e = Some ''45.12.1.1'') (last_n 1000 probe_events)) \<and>
   31 \<le> fst (calculate_threat_score_ip sample_fmean sample_strptime (sample_now_ev ''45.12.1.1'')
             probe_events ''45.12.1.1'') \<and>
   Some ''45.12.1.1'' \<notin> alerted_ips_of (alerts_file empty_store) \<and>
   (\<exists>st' new.
      detect_threats_by_ip sample_fmean sample_strptime sample_isoformat sample_now_ev sample_now_s
        probe_events empty_store = Inr st' \<and>
      alerts_file st' = alerts_file empty_store @ new \<and>
      distinct (map a_ip new) \<and>
      Some ''45.12.1.1'' \<in> set (map a_ip new) \<and>
      map_of (scores_file st') (''IP:'' @ ''45.12.1.1'')
        = Some (score_entry ''45.12.1.1''
            (calculate_threat_score_ip sample_fmean sample_strptime (sample_now_ev ''45.12.1.1'')
               probe_events ''45.12.1.1'')))"
proof -
  have h1: "''45.12.1.1'' \<noteq> []" by simp
  have h2: "''45.12.1.1'' \<notin> set LOCAL_IPS" by (simp add: LOCAL_IPS_def)
  have h3: "3 \<le> length (filter (\<lambda>e. e_ip e = Some ''45.12.1.1'') (last_n 1000 probe_events))"
    by (simp add: last_n_def probe_events_def probe_event_def)
  have h4: "31 \<le> fst (calculate_threat_score_ip sample_fmean sample_strptime (sample_now_ev ''45.12.1.1'')
             probe_events ''45.12.1.1'')"
    unfolding sample_now_ev_def probe_score by simp
  have h5: "Some ''45.12.1.1'' \<notin> alerted_ips_of (alerts_file empty_store)"
    by (simp add: alerted_ips_of_def empty_store_def)
  from detect_threats_alerts_each_ip_once [of sample_fmean sample_strptime sample_isoformat sample_now_ev
      sample_now_s probe_events empty_store]
  obtain st' new where r:
    "detect_threats_by_ip sample_fmean sample_strptime sample_isoformat sample_now_ev sample_now_s
        probe_events empty_store = Inr st'"
    "alerts_file st' = alerts_file empty_store @ new"
    "distinct (map a_ip new)"
    "\<forall>ip. ip \<noteq> [] \<and> ip \<notin> set LOCAL_IPS \<and>
        3 \<le> length (filter (\<lambda>e. e_ip e = Some ip) (last_n 1000 probe_events)) \<and>
        31 \<le> fst (calculate_threat_score_ip sample_fmean sample_strptime (sample_now_ev ip) probe_events ip) \<longrightarrow>
          map_of (scores_file st') (''IP:'' @ ip)
            = Some (score_entry ip (calculate_threat_score_ip sample_fmean sample_strptime (sample_now_ev ip)
                 probe_events ip)) \<and>
          (\<exists>s. map_of (sanctions_file st') (''IP:'' @ ip) = Some s \<and>
             s_score s = fst (calculate_threat_score_ip sample_fmean sample_strptime (sample_now_ev ip)
                 probe_events ip) \<and>
             s_severity s = Some (get_severity_level
               (fst (calculate_threat_score_ip sample_fmean sample_strptime (sample_now_ev ip) probe_events ip))) \<and>
             s_active s) \<and>
          (Some ip \<in> set (map a_ip new) \<longleftrightarrow> Some ip \<notin> alerted_ips_of (alerts_file empty_store))"
    by blast
  from r(4) h1 h2 h3 h4 have e:
    "map_of (scores_file st') (''IP:'' @ ''45.12.1.1'')
        = Some (score_entry ''45.12.1.1''
            (calculate_threat_score_ip sample_fmean sample_strptime (sample_now_ev ''45.12.1.1'')
               probe_events ''45.12.1.1''))"
    "Some ''45.12.1.1'' \<in> set (map a_ip new) \<longleftrightarrow>
       Some ''45.12.1.1'' \<notin> alerted_ips_of (alerts_file empty_store)"
    by blast+
  have "\<exists>st' new.
      detect_threats_by_ip sample_fmean sample_strptime sample_isoformat sample_now_ev sample_now_s
        probe_events empty_store = Inr st' \<and>
      alerts_file st' = alerts_file empty_store @ new \<and>
      distinct (map a_ip new) \<and>
      Some ''45.12.1.1'' \<in> set (map a_ip new) \<and>
      map_of (scores_file st') (''IP:'' @ ''45.12.1.1'')
        = Some (score_entry ''45.12.1.1''
            (calculate_threat_score_ip sample_fmean sample_strptime (sample_now_ev ''45.12.1.1'')
               probe_events ''45.12.1.1''))"
    using r(1,2,3) e h5 by blast
  then show ?thesis using h1 h2 h3 h4 h5 by blast
qed

lemma long_store_latest: "last_n 1000 long_store = replicate 997 lan_event @ window_events"
  by (simp add: last_n_def long_store_def window_events_def)

lemma long_store_filter:
  "filter (\<lambda>e. e_ip e = Some ''45.12.1.1'') long_store = stale_event # window_events"
  "filter (\<lambda>e. e_ip e = Some ''45.12.1.1'') (replicate 997 lan_event @ window_events)
     = window_events"
  by (simp_all add: long_store_def stale_event_def lan_event_def window_events_def mk_event_def)

lemma long_store_recent:
  "recent_events long_store ''45.12.1.1'' = stale_event # window_events"
  "recent_events (replicate 997 lan_event @ window_events) ''45.12.1.1'' = window_events"
  unfolding recent_events_def long_store_filter
  by (simp_all add: last_n_def window_events_def)

lemma long_store_times:
  "ip_times sample_strptime sample_now long_store ''45.12.1.1'' = [32400, 36000, 36180, 36360]"
  "ip_times sample_strptime sample_now (replicate 997 lan_event @ window_events) ''45.12.1.1''
     = [36000, 36180, 36360]"
  unfolding ip_times_eq long_store_recent
  by (simp_all add: stale_event_def window_events_def mk_event_def get_or_empty_def
      parse_datetime_def sample_strptime_def)

lemma long_store_stats:
  "st_failed_attempts (ip_stats long_store ''45.12.1.1'') = 1"
  "st_unique_users (ip_stats long_store ''45.12.1.1'') = [''admin'', ''sara'']"
  "st_countries (ip_stats long_store ''45.12.1.1'') = [''RU'', ''FR'']"
  "st_user_agents (ip_stats long_store ''45.12.1.1'') = [''sqlmap/1.7'', ''Mozilla/5.0'']"
  "st_targeted_hvt (ip_stats long_store ''45.12.1.1'') = [''admin'']"
  unfolding ip_stats_def long_store_recent Let_def
  by (simp_all add: stale_event_def window_events_def mk_event_def initial_stats_def
      stats_step_def truthy_def get_or_empty_def set_add_def HIGH_VALUE_TARGETS_def Let_def)

lemma window_stats:
  "st_failed_attempts (ip_stats (replicate 997 lan_event @ window_events) ''45.12.1.1'') = 0"
  "st_unique_users (ip_stats (replicate 997 lan_event @ window_events) ''45.12.1.1'') = [''sara'']"
  "st_countries (ip_stats (replicate 997 lan_event @ window_events) ''45.12.1.1'') = [''FR'']"
  "st_user_agents (ip_stats (replicate 997 lan_event @ window_events) ''45.12.1.1'')
     = [''Mozilla/5.0'']"
  "st_targeted_hvt (ip_stats (replicate 997 lan_event @ window_events) ''45.12.1.1'') = []"
  unfolding ip_stats_def long_store_recent Let_def
  by (simp_all add: window_events_def stats_step_quiet initial_stats_def set_add_def
      HIGH_VALUE_TARGETS_def)

lemma long_store_score:
  "fst (calculate_threat_score_ip sample_fmean sample_strptime sample_now long_store ''45.12.1.1'') = 45"
proof -
  have ne: "filter (\<lambda>e. e_ip e = Some ''45.12.1.1'') long_store \<noteq> []"
    unfolding long_store_filter by simp
  note cc = calculate_components[OF ne, of sample_fmean sample_strptime sample_now]
  have c: "failed_attempts (fst (snd (calculate_threat_score_ip sample_fmean sample_strptime sample_now
         long_store ''45.12.1.1''))) = 0"
    "attack_speed (fst (snd (calculate_threat_score_ip sample_fmean sample_strptime sample_now
         long_store ''45.12.1.1''))) = 0"
    "tool_detection (fst (snd (calculate_threat_score_ip sample_fmean sample_strptime sample_now
         long_store ''45.12.1.1''))) = 15"
    "geographic_risk (fst (snd (calculate_threat_score_ip sample_fmean sample_strptime sample_now
         long_store ''45.12.1.1''))) = 10"
    "user_spread (fst (snd (calculate_threat_score_ip sample_fmean sample_strptime sample_now
         long_store ''45.12.1.1''))) = 5"
    "persistence (fst (snd (calculate_threat_score_ip sample_fmean sample_strptime sample_now
         long_store ''45.12.1.1''))) = 15"
    unfolding cc long_store_times long_store_stats
    by (simp_all add: failed_attempts_score_def BRUTE_FORCE_FAIL_THRESHOLD_def
        attack_speed_score_def trimmed_diffs_def py_slice_def speed_tier_def double_0_6_def
        SCORING_WEIGHTS_def sample_fmean_def
        sqlmap_suspicious HIGH_RISK_COUNTRIES_def
        user_spread_score_def USER_SPREAD_THRESHOLD_def persistence_score_def
        PERSISTENCE_MINUTES_def)
  show ?thesis
    unfolding cc(7) components_sum_def c by (simp add: py_round2_def)
qed

lemma window_score:
  "fst (calculate_threat_score_ip sample_fmean sample_strptime sample_now
         (replicate 997 lan_event @ window_events) ''45.12.1.1'') = 0"
proof -
  let ?w = "replicate 997 lan_event @ window_events"
  have ne: "filter (\<lambda>e. e_ip e = Some ''45.12.1.1'') ?w \<noteq> []"
    unfolding long_store_filter by (simp add: window_events_def)
  note cc = calculate_components[OF ne, of sample_fmean sample_strptime sample_now]
  have c: "failed_attempts (fst (snd (calculate_threat_score_ip sample_fmean sample_strptime sample_now
         ?w ''45.12.1.1''))) = 0"
    "attack_speed (fst (snd (calculate_threat_score_ip sample_fmean sample_strptime sample_now
         ?w ''45.12.1.1''))) = 0"
    "tool_detection (fst (snd (calculate_threat_score_ip sample_fmean sample_strptime sample_now
         ?w ''45.12.1.1''))) = 0"
    "geographic_risk (fst (snd (calculate_threat_score_ip sample_fmean sample_strptime sample_now
         ?w ''45.12.1.1''))) = 0"
    "user_spread (fst (snd (calculate_threat_score_ip sample_fmean sample_strptime sample_now
         ?w ''45.12.1.1''))) = 0"
    "persistence (fst (snd (calculate_threat_score_ip sample_fmean sample_strptime sample_now
         ?w ''45.12.1.1''))) = 0"
    unfolding cc long_store_times window_stats
    by (simp_all add: failed_attempts_score_def BRUTE_FORCE_FAIL_THRESHOLD_def
        attack_speed_score_def trimmed_diffs_def speed_tier_def double_0_6_def SCORING_WEIGHTS_def
        sample_fmean_def
        mozilla_not_suspicious HIGH_RISK_COUNTRIES_def MEDIUM_RISK_COUNTRIES_def
        user_spread_score_def USER_SPREAD_THRESHOLD_def persistence_score_def
        PERSISTENCE_MINUTES_def)
  show ?thesis
    unfolding cc(7) components_sum_def c by (simp add: py_round2_def)
qed

lemma long_store_total:
  "map_option st_total_attempts
     (snd (snd (calculate_threat_score_ip sample_fmean sample_strptime sample_now long_store ''45.12.1.1'')))
   = Some 4"
proof -
  have ne: "filter (\<lambda>e. e_ip e = Some ''45.12.1.1'') long_store \<noteq> []"
    unfolding long_store_filter by simp
  have "st_total_attempts (ip_stats long_store ''45.12.1.1'') = 4"
    unfolding ip_stats_total long_store_recent by (simp add: window_events_def)
  then show ?thesis
    unfolding calculate_stats[OF ne] by simp
qed

text \<open>
  C4 at a concrete input. The store holds 1001 events; the first, a failed login on
  admin with sqlmap from RU at 09:00, lies outside the trailing 1000 events, which hold
  three quiet events of the same address. The address passes the gate of 3 events in
  the window, and it is then scored on the whole store: the statistics count 4 attempts
  and the score is 45, where the window alone scores 0, so the cycle writes a
  ThreatScore, a sanction and an alert for it.
\<close>

theorem event_outside_window_is_scored:
  "length long_store = 1001 \<and>
   last_n 1000 long_store = replicate 997 lan_event @ window_events \<and>
   stale_event \<notin> set (last_n 1000 long_store) \<and>
   filter (\<lambda>e. e_ip e = Some ''45.12.1.1'') (last_n 1000 long_store) = window_events \<and>
   fst (calculate_threat_score_ip sample_fmean sample_strptime sample_now (last_n 1000 long_store) ''45.12.1.1'') = 0 \<and>
   fst (calculate_threat_score_ip sample_fmean sample_strptime sample_now long_store ''45.12.1.1'') = 45 \<and>
   map_option st_total_attempts
     (snd (snd (calculate_threat_score_ip sample_fmean sample_strptime sample_now long_store ''45.12.1.1'')))
     = Some 4 \<and>
   (\<exists>st'. detect_threats_by_ip sample_fmean sample_strptime sample_isoformat sample_now_ev sample_now_s
            long_store empty_store = Inr st' \<and>
      map_of (scores_file st') (''IP:'' @ ''45.12.1.1'')
        = Some (score_entry ''45.12.1.1''
             (calculate_threat_score_ip sample_fmean sample_strptime sample_now long_store ''45.12.1.1'')) \<and>
      (\<exists>s. map_of (sanctions_file st') (''IP:'' @ ''45.12.1.1'') = Some s \<and> s_score s = 45) \<and>
      Some ''45.12.1.1'' \<in> set (map a_ip (alerts_file st')))"
proof -
  have len: "length long_store = 1001" by (simp add: long_store_def window_events_def)
  have out: "stale_event \<notin> set (last_n 1000 long_store)"
    unfolding long_store_latest
    by (simp add: stale_event_def lan_event_def window_events_def mk_event_def)
  have flt: "filter (\<lambda>e. e_ip e = Some ''45.12.1.1'') (last_n 1000 long_store) = window_events"
    unfolding long_store_latest by (rule long_store_filter(2))
  have w0: "fst (calculate_threat_score_ip sample_fmean sample_strptime sample_now (last_n 1000 long_store)
      ''45.12.1.1'') = 0"
    unfolding long_store_latest by (rule window_score)
  have h1: "''45.12.1.1'' \<noteq> []" by simp
  have h2: "''45.12.1.1'' \<notin> set LOCAL_IPS" by (simp add: LOCAL_IPS_def)
  have h3: "3 \<le> length (filter (\<lambda>e. e_ip e = Some ''45.12.1.1'') (last_n 1000 long_store))"
    unfolding flt by (simp add: window_events_def)
  have nw: "sample_now_ev ''45.12.1.1'' = sample_now" by (simp add: sample_now_ev_def)
  have h4: "31 \<le> fst (calculate_threat_score_ip sample_fmean sample_strptime (sample_now_ev ''45.12.1.1'')
             long_store ''45.12.1.1'')"
    unfolding nw long_store_score by simp
  have h5: "Some ''45.12.1.1'' \<notin> alerted_ips_of (alerts_file empty_store)"
    by (simp add: alerted_ips_of_def empty_store_def)
  from detect_cycle_effects [of sample_fmean sample_strptime sample_isoformat sample_now_ev
      sample_now_s long_store empty_store]
  obtain st' new where r:
    "detect_threats_by_ip sample_fmean sample_strptime sample_isoformat sample_now_ev sample_now_s
        long_store empty_store = Inr st'"
    "alerts_file st' = alerts_file empty_store @ new"
    "\<forall>ip. ip \<noteq> [] \<and> ip \<notin> set LOCAL_IPS \<and>
        3 \<le> length (filter (\<lambda>e. e_ip e = Some ip) (last_n 1000 long_store)) \<and>
        31 \<le> fst (calculate_threat_score_ip sample_fmean sample_strptime (sample_now_ev ip) long_store ip) \<longrightarrow>
          map_of (scores_file st') (''IP:'' @ ip)
            = Some (score_entry ip (calculate_threat_score_ip sample_fmean sample_strptime (sample_now_ev ip)
                 long_store ip)) \<and>
          (\<exists>s. map_of (sanctions_file st') (''IP:'' @ ip) = Some s \<and>
             s_score s = fst (calculate_threat_score_ip sample_fmean sample_strptime (sample_now_ev ip)
                 long_store ip) \<and>
             s_severity s = Some (get_severity_level
               (fst (calculate_threat_score_ip sample_fmean sample_strptime (sample_now_ev ip) long_store ip))) \<and>
             s_active s) \<and>
          (Some ip \<in> set (map a_ip new) \<longleftrightarrow> Some ip \<notin> alerted_ips_of (alerts_file empty_store))"
    by blast
  from r(3) h1 h2 h3 h4 have e:
    "map_of (scores_file st') (''IP:'' @ ''45.12.1.1'')
        = Some (score_entry ''45.12.1.1''
            (calculate_threat_score_ip sample_fmean sample_strptime (sample_now_ev ''45.12.1.1'')
               long_store ''45.12.1.1''))"
    "\<exists>s. map_of (sanctions_file st') (''IP:'' @ ''45.12.1.1'') = Some s \<and>
         s_score s = fst (calculate_threat_score_ip sample_fmean sample_strptime (sample_now_ev ''45.12.1.1'')
                 long_store ''45.12.1.1'')"
    "Some ''45.12.1.1'' \<in> set (map a_ip new) \<longleftrightarrow>
       Some ''45.12.1.1'' \<notin> alerted_ips_of (alerts_file empty_store)"
    by blast+
  have al: "Some ''45.12.1.1'' \<in> set (map a_ip (alerts_file st'))"
    unfolding r(2) using e(3) h5 by simp
  have "\<exists>st'. detect_threats_by_ip sample_fmean sample_strptime sample_isoformat sample_now_ev sample_now_s
            long_store empty_store = Inr st' \<and>
      map_of (scores_file st') (''IP:'' @ ''45.12.1.1'')
        = Some (score_entry ''45.12.1.1''
             (calculate_threat_score_ip sample_fmean sample_strptime sample_now long_store ''45.12.1.1'')) \<and>
      (\<exists>s. map_of (sanctions_file st') (''IP:'' @ ''45.12.1.1'') = Some s \<and> s_score s = 45) \<and>
      Some ''45.12.1.1'' \<in> set (map a_ip (alerts_file st'))"
    using r(1) e(1,2) al unfolding nw long_store_score by blast
  then show ?thesis
    using len long_store_latest out flt w0 long_store_score long_store_total by blast
qed

end
